theory Spec2Isabelle
  imports Complex_Main "HOL-Library.Word"
begin

section \<open>JavaScript strings\<close>

text \<open>
  A JavaScript string is a sequence of UTF-16 code units. ASCII literals of the source
  are written through \<open>js\<close>; the Chinese literals of the source are written as their code
  units.
\<close>

type_synonym jsstring = "16 word list"

definition js :: "string \<Rightarrow> jsstring" where
  "js s = map of_char s"

text \<open>
  \<open>String.prototype.trim\<close> removes WhiteSpace and LineTerminator code units from both
  ends: TAB, LF, VT, FF, CR, SP, NBSP, U+1680, U+2000..U+200A, U+2028, U+2029, U+202F,
  U+205F, U+3000 and U+FEFF.
\<close>

definition isWhiteSpace :: "16 word \<Rightarrow> bool" where
  "isWhiteSpace c \<longleftrightarrow>
     c \<in> {0x9, 0xA, 0xB, 0xC, 0xD, 0x20, 0xA0, 0x1680,
          0x2028, 0x2029, 0x202F, 0x205F, 0x3000, 0xFEFF}
     \<or> (0x2000 \<le> c \<and> c \<le> 0x200A)"

definition trim :: "jsstring \<Rightarrow> jsstring" where
  "trim s = rev (dropWhile isWhiteSpace (rev (dropWhile isWhiteSpace s)))"

text \<open>\<open>s.split(c)\<close> for a one-unit separator: the list of segments, never empty.\<close>

fun splitOn :: "'a \<Rightarrow> 'a list \<Rightarrow> 'a list list" where
  "splitOn c [] = [[]]"
| "splitOn c (x # xs) =
     (if x = c then [] # splitOn c xs
      else (let r = splitOn c xs in (x # hd r) # tl r))"

text \<open>\<open>s.includes(pat)\<close>: \<open>pat\<close> occurs in \<open>s\<close> as a contiguous run.\<close>

fun includesStr :: "'a list \<Rightarrow> 'a list \<Rightarrow> bool" where
  "includesStr [] pat = (pat = [])"
| "includesStr (x # xs) pat = (take (length pat) (x # xs) = pat \<or> includesStr xs pat)"

text \<open>\<open>String(value ?? "")\<close> for a widget value that is a string, null or undefined.\<close>

definition String_or_empty :: "jsstring option \<Rightarrow> jsstring" where
  "String_or_empty v = (case v of None \<Rightarrow> [] | Some s \<Rightarrow> s)"

abbreviation slash :: "16 word" where "slash \<equiv> 0x2F"
abbreviation backslash :: "16 word" where "backslash \<equiv> 0x5C"

text \<open>The literals of the source that are not ASCII.\<close>

definition NO_DATA :: jsstring where
  \<comment> \<open>the sentinel entry of an empty display list\<close>
  "NO_DATA = [0x672A, 0x52A0, 0x8F7D, 0x89D2, 0x8272, 0x6570, 0x636E]"

definition UNNAMED :: jsstring where
  \<comment> \<open>the display name of a record without names\<close>
  "UNNAMED = [0x672A, 0x547D, 0x540D, 0x89D2, 0x8272]"

definition NO_PREVIEW :: jsstring where
  \<comment> \<open>status text: the character has no preview image\<close>
  "NO_PREVIEW = [0x8BE5, 0x89D2, 0x8272, 0x65E0, 0x9884, 0x89C8, 0x56FE]"

definition LOADING :: jsstring where
  \<comment> \<open>status text: loading\<close>
  "LOADING = [0x52A0, 0x8F7D, 0x4E2D, 0x2E, 0x2E, 0x2E]"

definition LOAD_FAILED :: jsstring where
  \<comment> \<open>status text: the image failed to load\<close>
  "LOAD_FAILED = [0x56FE, 0x7247, 0x52A0, 0x8F7D, 0x5931, 0x8D25]"

definition SELECT_CHARACTER :: jsstring where
  \<comment> \<open>status text of a new node: select a character to see the preview\<close>
  "SELECT_CHARACTER = [0x9009, 0x62E9, 0x89D2, 0x8272, 0x67E5, 0x770B, 0x9884, 0x89C8]"

section \<open>normalizeJsonFile\<close>

text \<open>
  Backslashes become slashes, the string is split at slashes and the last segment is
  taken: the step the source comments as basename.
\<close>

definition basename :: "jsstring \<Rightarrow> jsstring" where
  "basename s = last (splitOn slash (map (\<lambda>c. if c = backslash then slash else c) s))"

definition normalizeJsonFile :: "jsstring option \<Rightarrow> jsstring" where
  "normalizeJsonFile v =
     (let s = trim (String_or_empty v) in
      if s = [] then []
      else
        let s2 = basename s
        in if includesStr s2 (js ''..'') then [] else s2)"

section \<open>The dataset: JSON payload, records, index and display list\<close>

text \<open>
  What \<open>response.json()\<close> can return. Of a number the code observes only whether it
  is zero (its truthiness).
\<close>

datatype json =
    JNull
  | JBool bool
  | JNum rat
  | JStr jsstring
  | JArr "json list"
  | JObj "(jsstring \<times> json) list"

datatype error = FetchError | HttpError | SyntaxError | ShapeError | TypeError

text \<open>
  \<open>char.key\<close> for the keys the code reads (\<open>name_cn\<close>, \<open>name_en\<close>, \<open>icon_url\<close>): reading a
  property of \<open>null\<close> throws, an object gives its member (the last one of a repeated
  key) or \<open>undefined\<close>, and every other value gives \<open>undefined\<close>.
\<close>

fun getField :: "json \<Rightarrow> jsstring \<Rightarrow> error + json option" where
  "getField JNull k = Inl TypeError"
| "getField (JObj kvs) k = Inr (map_of (rev kvs) k)"
| "getField _ k = Inr None"

fun truthy :: "json \<Rightarrow> bool" where
  "truthy JNull = False"
| "truthy (JBool b) = b"
| "truthy (JNum q) = (q \<noteq> 0)"
| "truthy (JStr s) = (s \<noteq> [])"
| "truthy (JArr xs) = True"
| "truthy (JObj kvs) = True"

text \<open>
  \<open>(x || "").trim()\<close>: a falsy \<open>x\<close> is replaced by the empty string; a truthy value
  that is not a string has no callable \<open>trim\<close>, and the call throws.
\<close>

fun orEmptyTrim :: "json option \<Rightarrow> error + jsstring" where
  "orEmptyTrim None = Inr (trim [])"
| "orEmptyTrim (Some (JStr s)) = Inr (trim s)"
| "orEmptyTrim (Some v) = (if truthy v then Inl TypeError else Inr (trim []))"

definition field :: "json \<Rightarrow> jsstring \<Rightarrow> error + jsstring" where
  "field char k = (case getField char k of Inl e \<Rightarrow> Inl e | Inr x \<Rightarrow> orEmptyTrim x)"

record payload =
  icon_url :: jsstring
  name_cn :: jsstring
  name_en :: jsstring
  displayName :: jsstring

definition displayNameOf :: "jsstring \<Rightarrow> jsstring \<Rightarrow> jsstring" where
  "displayNameOf cn en =
     (if cn \<noteq> [] \<and> en \<noteq> [] then cn @ js '' ('' @ en @ js '')''
      else if cn \<noteq> [] then cn
      else if en \<noteq> [] then en else UNNAMED)"

text \<open>The payload that the body of the \<open>forEach\<close> callback builds from one element.\<close>

definition mkPayload :: "json \<Rightarrow> error + payload" where
  "mkPayload char =
     (case field char (js ''name_cn'') of Inl e \<Rightarrow> Inl e | Inr cn \<Rightarrow>
       (case field char (js ''name_en'') of Inl e \<Rightarrow> Inl e | Inr en \<Rightarrow>
         (case field char (js ''icon_url'') of Inl e \<Rightarrow> Inl e | Inr ic \<Rightarrow>
            Inr \<lparr>icon_url = ic, name_cn = cn, name_en = en,
                 displayName = displayNameOf cn en\<rparr>)))"

text \<open>
  The index is the object \<open>newMap\<close>. The code only ever reads \<open>map[key]?.icon_url || ""\<close>,
  for which a property inherited from \<open>Object.prototype\<close> behaves as a missing key, so
  the object is a finite map from keys to payloads.
\<close>

type_synonym index = "jsstring \<rightharpoonup> payload"

definition addKey :: "index \<Rightarrow> jsstring \<Rightarrow> payload \<Rightarrow> index" where
  "addKey m key p =
     (if key = [] then m
      else let k = trim key in if k = [] then m else m(k \<mapsto> p))"

text \<open>The \<open>data.forEach\<close> loop over \<open>newMap\<close> and \<open>newList\<close>; a throw leaves the loop.\<close>

fun forEachChar :: "json list \<Rightarrow> index \<times> jsstring list \<Rightarrow> error + index \<times> jsstring list" where
  "forEachChar [] acc = Inr acc"
| "forEachChar (char # rest) (newMap, newList) =
     (case mkPayload char of
        Inl e \<Rightarrow> Inl e
      | Inr p \<Rightarrow>
          forEachChar rest
            (addKey (addKey (addKey newMap (displayName p) p) (name_cn p) p) (name_en p) p,
             newList @ [displayName p]))"

text \<open>\<open>Array.from(new Set(xs))\<close>: the first occurrence of every element, in order.\<close>

fun setAddAll :: "'a list \<Rightarrow> 'a list \<Rightarrow> 'a list" where
  "setAddAll acc [] = acc"
| "setAddAll acc (x # xs) = setAddAll (if x \<in> set acc then acc else acc @ [x]) xs"

definition uniq :: "'a list \<Rightarrow> 'a list" where
  "uniq xs = setAddAll [] xs"

text \<open>What the fetch of a data file gives.\<close>

datatype response =
    NetworkFailure              \<comment> \<open>\<open>fetch\<close> rejects\<close>
  | HttpNotOk                   \<comment> \<open>\<open>response.ok\<close> is false\<close>
  | InvalidJson                 \<comment> \<open>\<open>response.json()\<close> rejects\<close>
  | Payload json

text \<open>The body of the \<open>try\<close> block after the fetch, up to the pair it would store.\<close>

definition tryLoad :: "response \<Rightarrow> error + index \<times> jsstring list" where
  "tryLoad r =
     (case r of
        NetworkFailure \<Rightarrow> Inl FetchError
      | HttpNotOk \<Rightarrow> Inl HttpError
      | InvalidJson \<Rightarrow> Inl SyntaxError
      | Payload data \<Rightarrow>
          (case data of
             JArr xs \<Rightarrow>
               (case forEachChar xs (Map.empty, []) of
                  Inl e \<Rightarrow> Inl e
                | Inr (newMap, newList) \<Rightarrow>
                    let uniqList = uniq newList
                    in Inr (newMap, if uniqList = [] then uniqList @ [NO_DATA] else uniqList))
           | _ \<Rightarrow> Inl ShapeError))"

section \<open>The URL of a data file\<close>

text \<open>
  The code fetches \<open>new URL(`../data/${fileName}`, import.meta.url)\<close>. What follows is
  the part of the URL parser that such a call runs through, for a module served over
  http(s): a relative reference that starts with a path segment, resolved against the
  directory of the module. A URL is kept as the segments of its path and its query, both
  before percent-encoding; the origin is the module's own, and a fragment is not part of
  what is fetched.
\<close>

record url =
  url_path :: "jsstring list"
  url_query :: "jsstring option"

definition isC0OrSpace :: "16 word \<Rightarrow> bool" where
  "isC0OrSpace c \<longleftrightarrow> c \<le> 0x20"

definition isTabOrNewline :: "16 word \<Rightarrow> bool" where
  "isTabOrNewline c \<longleftrightarrow> c \<in> {0x9, 0xA, 0xD}"

text \<open>
  The parser first strips C0 controls and spaces from both ends of its input and then
  removes every tab and newline.
\<close>

definition preprocess :: "jsstring \<Rightarrow> jsstring" where
  "preprocess s =
     filter (\<lambda>c. \<not> isTabOrNewline c)
       (rev (dropWhile isC0OrSpace (rev (dropWhile isC0OrSpace s))))"

abbreviation questionMark :: "16 word" where "questionMark \<equiv> 0x3F"
abbreviation numberSign :: "16 word" where "numberSign \<equiv> 0x23"

text \<open>The path ends at the first \<open>?\<close> or \<open>#\<close>; the query runs from a \<open>?\<close> to the \<open>#\<close>.\<close>

definition pathOf :: "jsstring \<Rightarrow> jsstring" where
  "pathOf s = takeWhile (\<lambda>c. c \<noteq> questionMark \<and> c \<noteq> numberSign) s"

definition queryOf :: "jsstring \<Rightarrow> jsstring option" where
  "queryOf s =
     (let t = takeWhile (\<lambda>c. c \<noteq> numberSign) s in
      if questionMark \<in> set t then Some (tl (dropWhile (\<lambda>c. c \<noteq> questionMark) t)) else None)"

text \<open>
  A double-dot segment is \<open>..\<close> with either dot possibly written \<open>%2e\<close> or \<open>%2E\<close>; a
  single-dot segment is \<open>.\<close>, \<open>%2e\<close> or \<open>%2E\<close>.
\<close>

definition lowerE :: "jsstring \<Rightarrow> jsstring" where
  "lowerE s = map (\<lambda>c. if c = 0x45 then 0x65 else c) s"

definition isDoubleDot :: "jsstring \<Rightarrow> bool" where
  "isDoubleDot seg \<longleftrightarrow> lowerE seg \<in> {js ''..'', js ''.%2e'', js ''%2e.'', js ''%2e%2e''}"

definition isSingleDot :: "jsstring \<Rightarrow> bool" where
  "isSingleDot seg \<longleftrightarrow> lowerE seg \<in> {js ''.'', js ''%2e''}"

text \<open>
  The path state of the parser, segment by segment: a double-dot segment removes the last
  segment of the path so far, a single-dot segment is skipped, any other segment is
  appended; a dot segment in last place leaves an empty last segment.
\<close>

fun walk :: "jsstring list \<Rightarrow> jsstring list \<Rightarrow> jsstring list" where
  "walk p [] = p"
| "walk p [seg] =
     (if isDoubleDot seg then butlast p @ [[]]
      else if isSingleDot seg then p @ [[]]
      else p @ [seg])"
| "walk p (seg # rest) =
     (if isDoubleDot seg then walk (butlast p) rest
      else if isSingleDot seg then walk p rest
      else walk (p @ [seg]) rest)"

text \<open>The segments of a relative reference: slashes and backslashes both separate.\<close>

definition relSegments :: "jsstring \<Rightarrow> jsstring list" where
  "relSegments rel =
     splitOn slash (map (\<lambda>c. if c = backslash then slash else c) (pathOf (preprocess rel)))"

definition parseRelative :: "jsstring list \<Rightarrow> jsstring \<Rightarrow> url" where
  "parseRelative baseDir rel =
     \<lparr>url_path = walk baseDir (relSegments rel), url_query = queryOf (preprocess rel)\<rparr>"

section \<open>Module state, nodes and the host\<close>

record cacheEntry =
  map_entry :: index
  list_entry :: "jsstring list"

text \<open>
  One graph node: its two combo widgets, the option list of the character widget, and
  the preview (the source of its one \<open>Image\<close> object, the status text), with the URLs
  it has assigned to the image and the redraw requests it has issued.
\<close>

record node =
  jsonValue :: "jsstring option"
  characterValue :: "jsstring option"
  values_opt :: "jsstring list"
  img_src :: jsstring
  statusText :: jsstring
  requested :: "jsstring list"
  redraws :: nat

text \<open>
  The module-level variables \<open>currentFile\<close>, \<open>characterDataMap\<close>,
  \<open>characterDisplayList\<close> and \<open>fileCache\<close>, the URLs fetched so far, and the nodes of
  the graph.
\<close>

record world =
  currentFile :: jsstring
  characterDataMap :: index
  characterDisplayList :: "jsstring list"
  fileCache :: "jsstring \<rightharpoonup> cacheEntry"
  fetched :: "url list"
  nodes :: "nat \<Rightarrow> node"

text \<open>
  The host: the page origin, the serializer of a URL query value, the directory of the
  module (the path of \<open>import.meta.url\<close> without its last segment), and what the server
  answers for a URL.
\<close>

record host =
  origin :: jsstring
  urlencoded :: "jsstring \<Rightarrow> jsstring"
  moduleDir :: "jsstring list"
  dataFiles :: "url \<Rightarrow> response"

definition dataUrl :: "host \<Rightarrow> jsstring \<Rightarrow> url" where
  "dataUrl h fileName = parseRelative (moduleDir h) (js ''../data/'' @ fileName)"

text \<open>
  The data directory is the sibling \<open>data\<close> of the module's directory; a URL is inside
  it when its path starts with the path of that directory.
\<close>

definition dataDir :: "host \<Rightarrow> jsstring list" where
  "dataDir h = butlast (moduleDir h) @ [js ''data'']"

definition insideDataDir :: "host \<Rightarrow> url \<Rightarrow> bool" where
  "insideDataDir h u \<longleftrightarrow> take (length (dataDir h)) (url_path u) = dataDir h"

definition initialWorld :: "(nat \<Rightarrow> node) \<Rightarrow> world" where
  "initialWorld ns =
     \<lparr>currentFile = [], characterDataMap = Map.empty, characterDisplayList = [],
      fileCache = Map.empty, fetched = [], nodes = ns\<rparr>"

definition loadCharacterDataForFile :: "host \<Rightarrow> jsstring option \<Rightarrow> world \<Rightarrow> world" where
  "loadCharacterDataForFile h jsonFileValue w =
     (let fileName = normalizeJsonFile jsonFileValue in
      if fileName = [] then
        w\<lparr>currentFile := [], characterDataMap := Map.empty,
          characterDisplayList := [NO_DATA]\<rparr>
      else
        case fileCache w fileName of
          Some cached \<Rightarrow>
            w\<lparr>currentFile := fileName, characterDataMap := map_entry cached,
              characterDisplayList := list_entry cached\<rparr>
        | None \<Rightarrow>
            (case tryLoad (dataFiles h (dataUrl h fileName)) of
               Inr (newMap, uniqList) \<Rightarrow>
                 w\<lparr>fetched := fetched w @ [dataUrl h fileName],
                   fileCache := (fileCache w)(fileName \<mapsto>
                                  \<lparr>map_entry = newMap, list_entry = uniqList\<rparr>),
                   currentFile := fileName, characterDataMap := newMap,
                   characterDisplayList := uniqList\<rparr>
             | Inl e \<Rightarrow>
                 w\<lparr>fetched := fetched w @ [dataUrl h fileName],
                   currentFile := fileName, characterDataMap := Map.empty,
                   characterDisplayList := [NO_DATA]\<rparr>))"

definition setComboValues :: "jsstring list \<Rightarrow> node \<Rightarrow> node" where
  "setComboValues vals nd = nd\<lparr>values_opt := (if vals \<noteq> [] then vals else [NO_DATA])\<rparr>"

section \<open>The preview\<close>

definition buildPreviewSrc :: "host \<Rightarrow> jsstring \<Rightarrow> jsstring" where
  "buildPreviewSrc h iconUrl =
     (let url = trim iconUrl in
      if url = [] then []
      else origin h @ js ''/character_tag_selector/icon?url='' @ urlencoded h url)"

definition updateImage :: "host \<Rightarrow> jsstring \<Rightarrow> node \<Rightarrow> node" where
  "updateImage h iconUrl nd =
     (let b = buildPreviewSrc h iconUrl;
          url = (if b \<noteq> [] then b else trim iconUrl) in
      if url = [] then
        nd\<lparr>img_src := [], statusText := NO_PREVIEW, redraws := Suc (redraws nd)\<rparr>
      else
        nd\<lparr>statusText := LOADING, redraws := Suc (redraws nd),
           img_src := url, requested := requested nd @ [url]\<rparr>)"

definition img_onload :: "node \<Rightarrow> node" where
  "img_onload nd = nd\<lparr>redraws := Suc (redraws nd)\<rparr>"

definition img_onerror :: "node \<Rightarrow> node" where
  "img_onerror nd =
     nd\<lparr>img_src := [], statusText := LOAD_FAILED, redraws := Suc (redraws nd)\<rparr>"

section \<open>The selection binding\<close>

text \<open>
  The handlers that \<open>onNodeCreated\<close> installs on a node that has a \<open>character\<close> widget.
  The callbacks the widgets had before, the console output, the drawing of the preview
  and the resizing of the node are left out: they read the state below and do not
  change it.

  \<open>characterDataMap[String(value ?? "").trim()]?.icon_url || ""\<close>:
\<close>

definition resolveIcon :: "index \<Rightarrow> jsstring option \<Rightarrow> jsstring" where
  "resolveIcon m v =
     (case m (trim (String_or_empty v)) of None \<Rightarrow> [] | Some p \<Rightarrow> icon_url p)"

definition characterWidget_callback :: "host \<Rightarrow> nat \<Rightarrow> jsstring option \<Rightarrow> world \<Rightarrow> world" where
  "characterWidget_callback h n v w =
     w\<lparr>nodes := (nodes w)(n := updateImage h (resolveIcon (characterDataMap w) v) (nodes w n))\<rparr>"

text \<open>
  What follows \<open>await loadCharacterDataForFile(...)\<close> in the three places that call it
  (the \<open>json_file\<close> callback, \<open>init\<close> and \<open>onConfigure\<close>): the option list, the
  selection, the preview and a redraw, all read from the module state.
\<close>

definition refresh :: "host \<Rightarrow> nat \<Rightarrow> world \<Rightarrow> world" where
  "refresh h n w =
     (let l = characterDisplayList w;
          nd1 = setComboValues l (nodes w n);
          nd2 = (if (case characterValue nd1 of None \<Rightarrow> False | Some s \<Rightarrow> s \<in> set l) then nd1
                 else nd1\<lparr>characterValue := (case l of [] \<Rightarrow> None | x # _ \<Rightarrow> Some x)\<rparr>);
          nd3 = updateImage h (resolveIcon (characterDataMap w) (characterValue nd2)) nd2
      in w\<lparr>nodes := (nodes w)(n := nd3\<lparr>redraws := Suc (redraws nd3)\<rparr>)\<rparr>)"

text \<open>
  The three handlers have the same body: they await the load of the node's
  \<open>json_file\<close> value and then continue with \<open>refresh\<close>. Here each is taken on the
  schedule on which nothing else runs between its load and its continuation; the events
  below also have the two halves apart.
\<close>

definition jsonWidget_callback :: "host \<Rightarrow> nat \<Rightarrow> world \<Rightarrow> world" where
  "jsonWidget_callback h n w =
     refresh h n (loadCharacterDataForFile h (jsonValue (nodes w n)) w)"

definition init :: "host \<Rightarrow> nat \<Rightarrow> world \<Rightarrow> world" where
  "init h n w = refresh h n (loadCharacterDataForFile h (jsonValue (nodes w n)) w)"

definition onConfigure :: "host \<Rightarrow> nat \<Rightarrow> world \<Rightarrow> world" where
  "onConfigure h n w = refresh h n (loadCharacterDataForFile h (jsonValue (nodes w n)) w)"

text \<open>
  The events of a run. A handler of node \<open>n\<close> is started when the host creates the
  node (\<open>init\<close>), writes the \<open>json_file\<close> value and calls the callback
  (\<open>SetJsonValue\<close>), or restores the saved values (\<open>Restore\<close>). Its load
  (\<open>HandlerLoad\<close>) reads the \<open>json_file\<close> value as it is when the load runs, and its
  continuation (\<open>HandlerContinue\<close>) comes after the await, with whatever other events
  the host has in between. A load is one step, taken when its fetch is answered (the
  test of the cache, which the source makes before the fetch, is taken then too); a
  load that fetches nothing (a rejected name, a cache hit) has no await in it and is one
  step in the source as well. \<open>JsonChange\<close>, \<open>Configure\<close> and \<open>NodeCreated\<close> are the
  schedules with nothing in between, \<open>NodeCreated\<close> with the redraw request that ends
  \<open>onNodeCreated\<close> (\<open>Redraw\<close>). A change of the character control calls its handler
  at once. \<open>ImageLoad\<close> and \<open>ImageError\<close> are the host calling \<open>img.onload\<close> and
  \<open>img.onerror\<close> of the node's \<open>Image\<close>; when the host does so is not in the
  source, and a run may have them anywhere.
\<close>

datatype event =
    NodeCreated nat
  | JsonChange nat "jsstring option"
  | CharacterChange nat "jsstring option"
  | Configure nat "jsstring option" "jsstring option"
  | SetJsonValue nat "jsstring option"
  | Restore nat "jsstring option" "jsstring option"
  | HandlerLoad nat
  | HandlerContinue nat
  | Redraw nat
  | ImageLoad nat
  | ImageError nat

definition setNode :: "nat \<Rightarrow> (node \<Rightarrow> node) \<Rightarrow> world \<Rightarrow> world" where
  "setNode n f w = w\<lparr>nodes := (nodes w)(n := f (nodes w n))\<rparr>"

fun step :: "host \<Rightarrow> event \<Rightarrow> world \<Rightarrow> world" where
  "step h (NodeCreated n) w = init h n (setNode n (\<lambda>nd. nd\<lparr>redraws := Suc (redraws nd)\<rparr>) w)"
| "step h (JsonChange n v) w = jsonWidget_callback h n (setNode n (\<lambda>nd. nd\<lparr>jsonValue := v\<rparr>) w)"
| "step h (CharacterChange n v) w =
     characterWidget_callback h n v (setNode n (\<lambda>nd. nd\<lparr>characterValue := v\<rparr>) w)"
| "step h (Configure n jv cv) w =
     onConfigure h n (setNode n (\<lambda>nd. nd\<lparr>jsonValue := jv, characterValue := cv\<rparr>) w)"
| "step h (SetJsonValue n v) w = setNode n (\<lambda>nd. nd\<lparr>jsonValue := v\<rparr>) w"
| "step h (Restore n jv cv) w = setNode n (\<lambda>nd. nd\<lparr>jsonValue := jv, characterValue := cv\<rparr>) w"
| "step h (HandlerLoad n) w = loadCharacterDataForFile h (jsonValue (nodes w n)) w"
| "step h (HandlerContinue n) w = refresh h n w"
| "step h (Redraw n) w = setNode n (\<lambda>nd. nd\<lparr>redraws := Suc (redraws nd)\<rparr>) w"
| "step h (ImageLoad n) w = setNode n img_onload w"
| "step h (ImageError n) w = setNode n img_onerror w"

text \<open>A run: events in order, each with the host as it is at that moment.\<close>

fun run :: "(host \<times> event) list \<Rightarrow> world \<Rightarrow> world" where
  "run [] w = w"
| "run ((h, e) # es) w = run es (step h e w)"

fun isLoadEvent :: "event \<Rightarrow> bool" where
  "isLoadEvent (NodeCreated n) = True"
| "isLoadEvent (JsonChange n v) = True"
| "isLoadEvent (Configure n jv cv) = True"
| "isLoadEvent (HandlerLoad n) = True"
| "isLoadEvent _ = False"

section \<open>A concrete host and node\<close>

text \<open>
  The module is served from \<open>/extensions/character-tag-selector/js/\<close>, so that the data
  files are under \<open>/extensions/character-tag-selector/data/\<close>.
\<close>

definition sampleDir :: "jsstring list" where
  "sampleDir = [js ''extensions'', js ''character-tag-selector'', js ''js'']"

definition sampleFile :: "jsstring \<Rightarrow> url" where
  "sampleFile name =
     \<lparr>url_path = [js ''extensions'', js ''character-tag-selector'', js ''data'', name],
      url_query = None\<rparr>"

text \<open>A host whose server answers every request with a failure status.\<close>

definition demoHost :: host where
  "demoHost = \<lparr>origin = js ''http://localhost:8188'', urlencoded = (\<lambda>u. u),
               moduleDir = sampleDir, dataFiles = (\<lambda>u. HttpNotOk)\<rparr>"

text \<open>A node as \<open>onNodeCreated\<close> finds it, with no widget value set yet.\<close>

definition newNode :: node where
  "newNode = \<lparr>jsonValue = None, characterValue = None, values_opt = [],
              img_src = [], statusText = SELECT_CHARACTER, requested = [], redraws = 0\<rparr>"

text \<open>
  The two records of the examples (the names are the code units of the Chinese names of
  Raiden Shogun and of Hu Tao), and a host that serves them: \<open>genshin.json\<close> in the data
  directory holds both, \<open>empty.json\<close> holds the empty array, every other URL fails. Its
  serializer of query values stands in for the real one and changes nothing.
\<close>

definition RAIDEN_CN :: jsstring where
  "RAIDEN_CN = [0x96F7, 0x7535, 0x5C06, 0x519B]"

definition HUTAO_CN :: jsstring where
  "HUTAO_CN = [0x80E1, 0x6843]"

definition raiden :: json where
  "raiden = JObj [(js ''name_cn'', JStr RAIDEN_CN),
                  (js ''name_en'', JStr (js ''Raiden Shogun'')),
                  (js ''icon_url'', JStr (js ''https://example.com/raiden.png''))]"

definition hutao :: json where
  "hutao = JObj [(js ''name_cn'', JStr HUTAO_CN)]"

definition raidenPayload :: payload where
  "raidenPayload =
     \<lparr>icon_url = js ''https://example.com/raiden.png'', name_cn = RAIDEN_CN,
      name_en = js ''Raiden Shogun'',
      displayName = RAIDEN_CN @ js '' (Raiden Shogun)''\<rparr>"

definition hutaoPayload :: payload where
  "hutaoPayload = \<lparr>icon_url = [], name_cn = HUTAO_CN, name_en = [], displayName = HUTAO_CN\<rparr>"

definition sampleHost :: host where
  "sampleHost =
     \<lparr>origin = js ''http://localhost:8188'', urlencoded = (\<lambda>u. u),
      moduleDir = sampleDir,
      dataFiles = (\<lambda>u. if u = sampleFile (js ''genshin.json'') then Payload (JArr [raiden, hutao])
                        else if u = sampleFile (js ''empty.json'') then Payload (JArr [])
                        else HttpNotOk)\<rparr>"

text \<open>
  Nodes whose widgets hold \<open>genshin.json\<close> and the name of Hu Tao, \<open>genshin.json\<close> and
  the display name of Raiden Shogun, \<open>genshin.json\<close> and a name that no record has, and
  \<open>empty.json\<close> with no character.
\<close>

definition genshinNode :: node where
  "genshinNode = newNode\<lparr>jsonValue := Some (js ''genshin.json''), characterValue := Some HUTAO_CN\<rparr>"



definition emptyNode :: node where
  "emptyNode = newNode\<lparr>jsonValue := Some (js ''empty.json'')\<rparr>"


text \<open>Every cached display list has an entry.\<close>

definition cacheListsNonEmpty :: "world \<Rightarrow> bool" where
  "cacheListsNonEmpty w \<longleftrightarrow> (\<forall>e \<in> ran (fileCache w). list_entry e \<noteq> [])"

section \<open>Splitting, searching and normalising\<close>

lemma splitOn_nonempty: "splitOn c xs \<noteq> []"
  by (induction xs) (auto simp: Let_def)

lemma splitOn_no_separator: "seg \<in> set (splitOn c xs) \<Longrightarrow> c \<notin> set seg"
proof (induction xs arbitrary: seg)
  case Nil
  then show ?case by simp
next
  case (Cons x xs)
  show ?case
  proof (cases "x = c")
    case True
    with Cons show ?thesis by auto
  next
    case False
    obtain r rs where r: "splitOn c xs = r # rs"
      using splitOn_nonempty [of c xs] by (cases "splitOn c xs") auto
    with Cons False show ?thesis by (auto simp: Let_def)
  qed
qed

lemma splitOn_subset: "seg \<in> set (splitOn c xs) \<Longrightarrow> set seg \<subseteq> set xs"
proof (induction xs arbitrary: seg)
  case Nil
  then show ?case by simp
next
  case (Cons x xs)
  obtain r rs where r: "splitOn c xs = r # rs"
    using splitOn_nonempty [of c xs] by (cases "splitOn c xs") auto
  with Cons show ?case by (fastforce simp: Let_def split: if_splits)
qed

lemma includesStr_iff: "includesStr s pat \<longleftrightarrow> (\<exists>ps ss. s = ps @ pat @ ss)"
proof (induction s)
  case Nil
  then show ?case by auto
next
  case (Cons x xs)
  show ?case
  proof
    assume "includesStr (x # xs) pat"
    then consider "take (length pat) (x # xs) = pat" | "includesStr xs pat" by auto
    then show "\<exists>ps ss. x # xs = ps @ pat @ ss"
    proof cases
      case 1
      then have "x # xs = [] @ pat @ drop (length pat) (x # xs)"
        by (metis append_Nil append_take_drop_id)
      then show ?thesis by blast
    next
      case 2
      with Cons obtain ps ss where "xs = ps @ pat @ ss" by blast
      then have "x # xs = (x # ps) @ pat @ ss" by simp
      then show ?thesis by blast
    qed
  next
    assume "\<exists>ps ss. x # xs = ps @ pat @ ss"
    then obtain ps ss where eq: "x # xs = ps @ pat @ ss" by blast
    show "includesStr (x # xs) pat"
    proof (cases ps)
      case Nil
      with eq have "take (length pat) (x # xs) = pat" by simp
      then show ?thesis by simp
    next
      case (Cons p ps')
      with eq have "xs = ps' @ pat @ ss" by simp
      with Cons.IH show ?thesis by auto
    qed
  qed
qed

lemma basename_no_separator: "slash \<notin> set (basename s) \<and> backslash \<notin> set (basename s)"
proof -
  let ?m = "map (\<lambda>c. if c = backslash then slash else c) s"
  have mem: "basename s \<in> set (splitOn slash ?m)"
    unfolding basename_def using splitOn_nonempty [of slash ?m] by simp
  have "slash \<notin> set (basename s)" using splitOn_no_separator [OF mem] .
  moreover have "backslash \<notin> set ?m" by auto
  then have "backslash \<notin> set (basename s)" using splitOn_subset [OF mem] by blast
  ultimately show ?thesis by simp
qed

lemma normalizeJsonFile_cases:
  "normalizeJsonFile v = [] \<or> normalizeJsonFile v = basename (trim (String_or_empty v))"
  by (simp add: normalizeJsonFile_def Let_def)

lemma normalizeJsonFile_safe:
  "slash \<notin> set (normalizeJsonFile v) \<and> backslash \<notin> set (normalizeJsonFile v)
   \<and> \<not> includesStr (normalizeJsonFile v) (js ''..'')"
  using basename_no_separator [of "trim (String_or_empty v)"]
  by (simp add: normalizeJsonFile_def Let_def js_def)


lemmas string_eval = js_def trim_def isWhiteSpace_def String_or_empty_def basename_def

text \<open>
  C10: for every input, \<open>normalizeJsonFile\<close> returns the empty string or the last path
  segment of the trimmed input with backslashes read as slashes; the result holds no
  slash and no backslash; it is empty whenever that segment contains two dots in a row,
  as for the plain file name \<open>a..b.json\<close>.
\<close>

theorem normalizeJsonFile_basename_or_empty:
  "(normalizeJsonFile v = [] \<or> normalizeJsonFile v = basename (trim (String_or_empty v)))
   \<and> slash \<notin> set (normalizeJsonFile v) \<and> backslash \<notin> set (normalizeJsonFile v)
   \<and> (includesStr (basename (trim (String_or_empty v))) (js ''..'') \<longrightarrow> normalizeJsonFile v = [])
   \<and> normalizeJsonFile (Some (js ''a..b.json'')) = []"
proof -
  have "includesStr (basename (trim (String_or_empty v))) (js ''..'') \<longrightarrow> normalizeJsonFile v = []"
    by (simp add: normalizeJsonFile_def Let_def)
  moreover have "normalizeJsonFile (Some (js ''a..b.json'')) = []"
    by (simp add: normalizeJsonFile_def string_eval)
  ultimately show ?thesis
    using normalizeJsonFile_cases [of v] normalizeJsonFile_safe [of v] by blast
qed

theorem normalizeJsonFile_basename_or_empty_witness:
  "includesStr (basename (trim (String_or_empty (Some (js ''dir/a..b.json''))))) (js ''..'')
   \<and> normalizeJsonFile (Some (js ''dir/a..b.json'')) = []"
proof -
  have h: "includesStr (basename (trim (String_or_empty (Some (js ''dir/a..b.json''))))) (js ''..'')"
    by (simp add: string_eval)
  with normalizeJsonFile_basename_or_empty [of "Some (js ''dir/a..b.json'')"] show ?thesis
    by blast
qed

section \<open>Where a data file is fetched from\<close>

lemma splitOn_no_occurrence: "c \<notin> set t \<Longrightarrow> splitOn c t = [t]"
  by (induction t) (auto simp: Let_def)

lemma strip_end_after_prefix:
  assumes "p \<noteq> []" and "\<not> isC0OrSpace (last p)"
  shows "rev (dropWhile isC0OrSpace (rev (p @ f))) = p @ rev (dropWhile isC0OrSpace (rev f))"
proof -
  from assms have keep: "dropWhile isC0OrSpace (rev p) = rev p"
    by (cases p rule: rev_cases) auto
  have "dropWhile isC0OrSpace (rev f @ rev p) = dropWhile isC0OrSpace (rev f) @ rev p"
  proof (cases "\<forall>c \<in> set (rev f). isC0OrSpace c")
    case True
    then have "dropWhile isC0OrSpace (rev f) = []" by simp
    with True keep show ?thesis by (simp add: dropWhile_append)
  next
    case False
    then show ?thesis by (auto simp: dropWhile_append)
  qed
  then show ?thesis by simp
qed

text \<open>What the parser keeps of a file name as the last segment of the path.\<close>

lemma relSegments_data:
  assumes "slash \<notin> set f" and "backslash \<notin> set f"
  shows "\<exists>t. relSegments (js ''../data/'' @ f) = [js ''..'', js ''data'', t]"
proof -
  let ?g = "filter (\<lambda>c. \<not> isTabOrNewline c) (rev (dropWhile isC0OrSpace (rev f)))"
  let ?t = "map (\<lambda>c. if c = backslash then slash else c) (pathOf ?g)"
  have pre: "preprocess (js ''../data/'' @ f) = js ''../data/'' @ ?g"
  proof -
    have "dropWhile isC0OrSpace (js ''../data/'' @ f) = js ''../data/'' @ f"
      by (simp add: js_def isC0OrSpace_def)
    moreover have "rev (dropWhile isC0OrSpace (rev (js ''../data/'' @ f)))
        = js ''../data/'' @ rev (dropWhile isC0OrSpace (rev f))"
      by (rule strip_end_after_prefix) (simp_all add: js_def isC0OrSpace_def)
    moreover have "filter (\<lambda>c. \<not> isTabOrNewline c) (js ''../data/'') = js ''../data/''"
      by (simp add: js_def isTabOrNewline_def)
    ultimately show ?thesis by (simp add: preprocess_def)
  qed
  have sub: "set (pathOf ?g) \<subseteq> set f"
  proof -
    have "set (pathOf ?g) \<subseteq> set ?g"
      unfolding pathOf_def by (auto dest: set_takeWhileD)
    also have "\<dots> \<subseteq> set (rev (dropWhile isC0OrSpace (rev f)))" by auto
    also have "\<dots> \<subseteq> set f" by (auto dest: set_dropWhileD)
    finally show ?thesis .
  qed
  with assms have none: "slash \<notin> set ?t" by auto
  have "pathOf (js ''../data/'' @ ?g) = js ''../data/'' @ pathOf ?g"
    by (simp add: pathOf_def js_def)
  then have "relSegments (js ''../data/'' @ f) = splitOn slash (js ''../data/'' @ ?t)"
    by (simp add: relSegments_def pre) (simp add: js_def)
  also have "\<dots> = [js ''..'', js ''data'', ?t]"
    by (simp add: js_def splitOn_no_occurrence [OF none])
  finally show ?thesis by blast
qed

lemma plain_segments_not_dots:
  "\<not> isDoubleDot (js ''data'')" "\<not> isSingleDot (js ''data'')" "isDoubleDot (js ''..'')"
  by (simp_all add: isDoubleDot_def isSingleDot_def lowerE_def js_def)

lemma dataUrl_path:
  assumes "slash \<notin> set f" and "backslash \<notin> set f"
  shows "url_path (dataUrl h f) =
     (if isDoubleDot (last (relSegments (js ''../data/'' @ f))) then butlast (dataDir h) @ [[]]
      else if isSingleDot (last (relSegments (js ''../data/'' @ f))) then dataDir h @ [[]]
      else dataDir h @ [last (relSegments (js ''../data/'' @ f))])"
proof -
  from relSegments_data [OF assms] obtain t
    where t: "relSegments (js ''../data/'' @ f) = [js ''..'', js ''data'', t]" by blast
  show ?thesis
    by (simp add: dataUrl_def parseRelative_def t plain_segments_not_dots dataDir_def)
qed

lemma dataUrl_inside:
  assumes "slash \<notin> set f" and "backslash \<notin> set f"
    and "\<not> isDoubleDot (last (relSegments (js ''../data/'' @ f)))"
  shows "insideDataDir h (dataUrl h f)"
  using assms(3) by (simp add: insideDataDir_def dataUrl_path [OF assms(1,2)])

lemma fetched_load:
  "fetched (loadCharacterDataForFile h v w) =
     (if normalizeJsonFile v \<noteq> [] \<and> fileCache w (normalizeJsonFile v) = None
      then fetched w @ [dataUrl h (normalizeJsonFile v)] else fetched w)"
  by (auto simp: loadCharacterDataForFile_def Let_def split: option.splits sum.splits)

lemma last_segment_secret: "last (relSegments (js ''../data/secret.json'')) = js ''secret.json''"
  by (simp add: relSegments_def preprocess_def pathOf_def isC0OrSpace_def isTabOrNewline_def js_def)

lemma secret_not_dots:
  "\<not> isDoubleDot (js ''secret.json'')" "\<not> isSingleDot (js ''secret.json'')"
  by (simp_all add: isDoubleDot_def isSingleDot_def lowerE_def js_def)

lemma dataUrl_secret:
  "url_path (dataUrl h (js ''secret.json'')) = dataDir h @ [js ''secret.json'']"
proof -
  have sep: "slash \<notin> set (js ''secret.json'')" "backslash \<notin> set (js ''secret.json'')"
    by (simp_all add: js_def)
  have seg: "last (relSegments (js ''../data/'' @ js ''secret.json'')) = js ''secret.json''"
    using last_segment_secret by (simp add: js_def)
  show ?thesis
    by (simp add: dataUrl_path [OF sep] seg secret_not_dots)
qed

lemmas url_eval = dataUrl_def parseRelative_def relSegments_def preprocess_def pathOf_def
  queryOf_def isC0OrSpace_def isTabOrNewline_def isDoubleDot_def isSingleDot_def lowerE_def

lemma initialWorld_simps:
  "currentFile (initialWorld ns) = []" "characterDataMap (initialWorld ns) = Map.empty"
  "characterDisplayList (initialWorld ns) = []" "fileCache (initialWorld ns) = Map.empty"
  "fetched (initialWorld ns) = []" "nodes (initialWorld ns) = ns"
  by (simp_all add: initialWorld_def)

text \<open>
  The name \<open>../secret.json\<close> is not rejected: the segment before the last slash is dropped
  before the test for two dots, and the result is \<open>secret.json\<close>. And a name is fetched
  from outside the data directory: \<open>../%2e%2e\<close> is normalised to \<open>%2e%2e\<close>, which has no
  two dots in a row but which the URL parser reads as a double-dot segment, so that the
  fetch goes to the parent of the data directory.
\<close>

theorem traversal_name_not_rejected:
  "normalizeJsonFile (Some (js ''../secret.json'')) = js ''secret.json''
   \<and> normalizeJsonFile (Some (js ''../secret.json'')) \<noteq> []
   \<and> normalizeJsonFile (Some (js ''../%2e%2e'')) = js ''%2e%2e''
   \<and> fetched (loadCharacterDataForFile sampleHost (Some (js ''../%2e%2e''))
                (initialWorld (\<lambda>n. newNode)))
       = [\<lparr>url_path = [js ''extensions'', js ''character-tag-selector'', []],
           url_query = None\<rparr>]
   \<and> dataDir sampleHost = [js ''extensions'', js ''character-tag-selector'', js ''data'']
   \<and> \<not> insideDataDir sampleHost
         \<lparr>url_path = [js ''extensions'', js ''character-tag-selector'', []],
          url_query = None\<rparr>"
proof -
  have n1: "normalizeJsonFile (Some (js ''../secret.json'')) = js ''secret.json''"
    by (simp add: normalizeJsonFile_def string_eval)
  have n2: "normalizeJsonFile (Some (js ''../%2e%2e'')) = js ''%2e%2e''"
    by (simp add: normalizeJsonFile_def string_eval)
  have u: "dataUrl sampleHost (js ''%2e%2e'')
      = \<lparr>url_path = [js ''extensions'', js ''character-tag-selector'', []], url_query = None\<rparr>"
    by (simp add: url_eval sampleHost_def sampleDir_def js_def)
  have d: "dataDir sampleHost = [js ''extensions'', js ''character-tag-selector'', js ''data'']"
    by (simp add: dataDir_def sampleHost_def sampleDir_def)
  have f: "fetched (loadCharacterDataForFile sampleHost (Some (js ''../%2e%2e''))
                (initialWorld (\<lambda>n. newNode))) = [dataUrl sampleHost (js ''%2e%2e'')]"
    by (simp add: fetched_load n2 initialWorld_simps) (simp add: js_def)
  have out: "\<not> insideDataDir sampleHost
         \<lparr>url_path = [js ''extensions'', js ''character-tag-selector'', []], url_query = None\<rparr>"
    by (simp add: insideDataDir_def d) (simp add: js_def)
  from n1 n2 u d f out show ?thesis
    by (simp add: js_def)
qed

text \<open>
  C1 (as the code has it): \<open>../secret.json\<close> is normalised to its last segment
  \<open>secret.json\<close>, and a load of it fetches \<open>secret.json\<close> in the data directory. For
  every input, the normalised name has no slash, no backslash and no two dots in a row,
  a load fetches nothing but the URL of that name, and that URL is inside the data
  directory whenever the URL parser does not read the name as a double-dot segment.
\<close>

theorem traversal_name_fetches_basename:
  "normalizeJsonFile (Some (js ''../secret.json'')) = js ''secret.json''
   \<and> url_path (dataUrl h (js ''secret.json'')) = dataDir h @ [js ''secret.json'']
   \<and> (fileCache w (js ''secret.json'') = None \<longrightarrow>
        fetched (loadCharacterDataForFile h (Some (js ''../secret.json'')) w)
          = fetched w @ [dataUrl h (js ''secret.json'')])
   \<and> slash \<notin> set (normalizeJsonFile v) \<and> backslash \<notin> set (normalizeJsonFile v)
   \<and> \<not> includesStr (normalizeJsonFile v) (js ''..'')
   \<and> (\<forall>u \<in> set (fetched (loadCharacterDataForFile h v w)) - set (fetched w).
        u = dataUrl h (normalizeJsonFile v)
        \<and> (\<not> isDoubleDot (last (relSegments (js ''../data/'' @ normalizeJsonFile v)))
             \<longrightarrow> insideDataDir h u))"
proof -
  have n: "normalizeJsonFile (Some (js ''../secret.json'')) = js ''secret.json''"
    by (simp add: normalizeJsonFile_def string_eval)
  have ne: "js ''secret.json'' \<noteq> []" by (simp add: js_def)
  have a: "fileCache w (js ''secret.json'') = None \<longrightarrow>
        fetched (loadCharacterDataForFile h (Some (js ''../secret.json'')) w)
          = fetched w @ [dataUrl h (js ''secret.json'')]"
    using ne by (simp add: fetched_load n)
  note safe = normalizeJsonFile_safe [of v]
  have b: "\<forall>u \<in> set (fetched (loadCharacterDataForFile h v w)) - set (fetched w).
        u = dataUrl h (normalizeJsonFile v)
        \<and> (\<not> isDoubleDot (last (relSegments (js ''../data/'' @ normalizeJsonFile v)))
             \<longrightarrow> insideDataDir h u)"
    using safe by (auto simp: fetched_load dataUrl_inside split: if_splits)
  from n a b safe dataUrl_secret [of h] show ?thesis by blast
qed

lemma dataUrl_sample_secret: "dataUrl sampleHost (js ''secret.json'') = sampleFile (js ''secret.json'')"
  by (simp add: url_eval sampleHost_def sampleDir_def sampleFile_def js_def)

theorem traversal_name_fetches_basename_witness:
  "fileCache (initialWorld (\<lambda>n. newNode)) (js ''secret.json'') = None
   \<and> fetched (loadCharacterDataForFile sampleHost (Some (js ''../secret.json''))
               (initialWorld (\<lambda>n. newNode)))
       = [sampleFile (js ''secret.json'')]
   \<and> sampleFile (js ''secret.json'')
       \<in> set (fetched (loadCharacterDataForFile sampleHost (Some (js ''../secret.json''))
                 (initialWorld (\<lambda>n. newNode))))
          - set (fetched (initialWorld (\<lambda>n. newNode)))
   \<and> \<not> isDoubleDot (last (relSegments (js ''../data/''
           @ normalizeJsonFile (Some (js ''../secret.json'')))))
   \<and> insideDataDir sampleHost (sampleFile (js ''secret.json''))"
proof -
  let ?w = "initialWorld (\<lambda>n. newNode)"
  let ?v = "Some (js ''../secret.json'')"
  note t = traversal_name_fetches_basename [of sampleHost ?w ?v]
  have c: "fileCache ?w (js ''secret.json'') = None" and f0: "fetched ?w = []"
    by (simp_all add: initialWorld_simps)
  from t have n: "normalizeJsonFile ?v = js ''secret.json''" by blast
  from t c f0 have f: "fetched (loadCharacterDataForFile sampleHost ?v ?w)
      = [sampleFile (js ''secret.json'')]"
    by (simp add: dataUrl_sample_secret)
  have "js ''../data/'' @ normalizeJsonFile ?v = js ''../data/secret.json''"
    by (simp add: n) (simp add: js_def)
  then have seg: "\<not> isDoubleDot (last (relSegments (js ''../data/'' @ normalizeJsonFile ?v)))"
    by (simp only: last_segment_secret secret_not_dots not_False_eq_True)
  have mem: "sampleFile (js ''secret.json'')
       \<in> set (fetched (loadCharacterDataForFile sampleHost ?v ?w)) - set (fetched ?w)"
    by (simp add: f f0)
  with t seg have "insideDataDir sampleHost (sampleFile (js ''secret.json''))" by blast
  with c f mem seg show ?thesis by blast
qed

section \<open>Loading a data file\<close>

lemma set_setAddAll: "set (setAddAll acc xs) = set acc \<union> set xs"
  by (induction xs arbitrary: acc) auto

lemma distinct_setAddAll: "distinct acc \<Longrightarrow> distinct (setAddAll acc xs)"
  by (induction xs arbitrary: acc) auto

lemma uniq_set_distinct: "set (uniq xs) = set xs \<and> distinct (uniq xs)"
  by (simp add: uniq_def set_setAddAll distinct_setAddAll)

lemma uniq_Nil_iff: "uniq xs = [] \<longleftrightarrow> xs = []"
  using uniq_set_distinct [of xs] by (metis set_empty)

lemma tryLoad_Inr:
  assumes "tryLoad r = Inr (m, l)"
  obtains xs newList where "r = Payload (JArr xs)"
    and "forEachChar xs (Map.empty, []) = Inr (m, newList)"
    and "l = (if uniq newList = [] then [NO_DATA] else uniq newList)"
proof (cases r)
  case (Payload data)
  show ?thesis
  proof (cases data)
    case (JArr xs)
    show ?thesis
    proof (cases "forEachChar xs (Map.empty, [])")
      case (Inl e)
      with assms Payload JArr show ?thesis by (simp add: tryLoad_def)
    next
      case (Inr res)
      obtain nm nl where res: "res = (nm, nl)" by (cases res)
      with assms Payload JArr Inr have "m = nm" and "l = (if uniq nl = [] then [NO_DATA] else uniq nl)"
        by (auto simp: tryLoad_def Let_def split: if_splits)
      with that Payload JArr Inr res show ?thesis by simp
    qed
  qed (use assms Payload in \<open>simp_all add: tryLoad_def\<close>)
qed (use assms in \<open>simp_all add: tryLoad_def\<close>)

lemma tryLoad_list_nonempty: "tryLoad r = Inr (m, l) \<Longrightarrow> l \<noteq> []"
  by (erule tryLoad_Inr) simp

lemma tryLoad_empty_array: "tryLoad (Payload (JArr [])) = Inr (Map.empty, [NO_DATA])"
  by (simp add: tryLoad_def uniq_def)

lemma load_rejected:
  "normalizeJsonFile v = [] \<Longrightarrow>
   loadCharacterDataForFile h v w =
     w\<lparr>currentFile := [], characterDataMap := Map.empty, characterDisplayList := [NO_DATA]\<rparr>"
  by (simp add: loadCharacterDataForFile_def Let_def)

lemma load_hit:
  "normalizeJsonFile v \<noteq> [] \<Longrightarrow> fileCache w (normalizeJsonFile v) = Some c \<Longrightarrow>
   loadCharacterDataForFile h v w =
     w\<lparr>currentFile := normalizeJsonFile v, characterDataMap := map_entry c,
       characterDisplayList := list_entry c\<rparr>"
  by (simp add: loadCharacterDataForFile_def Let_def)

lemma load_miss_ok:
  "normalizeJsonFile v \<noteq> [] \<Longrightarrow> fileCache w (normalizeJsonFile v) = None \<Longrightarrow>
   tryLoad (dataFiles h (dataUrl h (normalizeJsonFile v))) = Inr (m, l) \<Longrightarrow>
   loadCharacterDataForFile h v w =
     w\<lparr>fetched := fetched w @ [dataUrl h (normalizeJsonFile v)],
       fileCache := (fileCache w)(normalizeJsonFile v \<mapsto> \<lparr>map_entry = m, list_entry = l\<rparr>),
       currentFile := normalizeJsonFile v, characterDataMap := m,
       characterDisplayList := l\<rparr>"
  by (simp add: loadCharacterDataForFile_def Let_def)

lemma load_miss_failed:
  "normalizeJsonFile v \<noteq> [] \<Longrightarrow> fileCache w (normalizeJsonFile v) = None \<Longrightarrow>
   tryLoad (dataFiles h (dataUrl h (normalizeJsonFile v))) = Inl e \<Longrightarrow>
   loadCharacterDataForFile h v w =
     w\<lparr>fetched := fetched w @ [dataUrl h (normalizeJsonFile v)],
       currentFile := normalizeJsonFile v, characterDataMap := Map.empty,
       characterDisplayList := [NO_DATA]\<rparr>"
  by (simp add: loadCharacterDataForFile_def Let_def)

section \<open>The example records\<close>

lemmas record_eval = mkPayload_def field_def displayNameOf_def addKey_def uniq_def
  js_def trim_def isWhiteSpace_def RAIDEN_CN_def HUTAO_CN_def UNNAMED_def NO_DATA_def

lemma mkPayload_raiden: "mkPayload raiden = Inr raidenPayload"
  by (simp add: raiden_def raidenPayload_def record_eval)

lemma mkPayload_hutao: "mkPayload hutao = Inr hutaoPayload"
  by (simp add: hutao_def hutaoPayload_def record_eval)

lemma tryLoad_raiden:
  "tryLoad (Payload (JArr [raiden])) =
     Inr ([RAIDEN_CN @ js '' (Raiden Shogun)'' \<mapsto> raidenPayload,
           RAIDEN_CN \<mapsto> raidenPayload,
           js ''Raiden Shogun'' \<mapsto> raidenPayload],
          [RAIDEN_CN @ js '' (Raiden Shogun)''])"
  by (simp add: tryLoad_def mkPayload_raiden)
     (simp add: Let_def raidenPayload_def addKey_def uniq_def js_def trim_def isWhiteSpace_def RAIDEN_CN_def)

lemma tryLoad_hutao:
  "tryLoad (Payload (JArr [hutao])) = Inr ([HUTAO_CN \<mapsto> hutaoPayload], [HUTAO_CN])"
  by (simp add: tryLoad_def mkPayload_hutao)
     (simp add: Let_def hutaoPayload_def addKey_def uniq_def js_def trim_def isWhiteSpace_def HUTAO_CN_def)

lemma tryLoad_genshin:
  "tryLoad (Payload (JArr [raiden, hutao])) =
     Inr ([RAIDEN_CN @ js '' (Raiden Shogun)'' \<mapsto> raidenPayload,
           RAIDEN_CN \<mapsto> raidenPayload,
           js ''Raiden Shogun'' \<mapsto> raidenPayload,
           HUTAO_CN \<mapsto> hutaoPayload],
          [RAIDEN_CN @ js '' (Raiden Shogun)'', HUTAO_CN])"
  by (simp add: tryLoad_def mkPayload_raiden mkPayload_hutao)
     (simp add: Let_def raidenPayload_def hutaoPayload_def addKey_def uniq_def js_def trim_def
        isWhiteSpace_def RAIDEN_CN_def HUTAO_CN_def)

lemma normalize_genshin: "normalizeJsonFile (Some (js ''genshin.json'')) = js ''genshin.json''"
  by (simp add: normalizeJsonFile_def js_def trim_def isWhiteSpace_def String_or_empty_def basename_def)

lemma js_genshin_nonempty: "js ''genshin.json'' \<noteq> []"
  by (simp add: js_def)

lemma dataUrl_sample:
  "dataUrl sampleHost (js ''genshin.json'') = sampleFile (js ''genshin.json'')"
  "dataUrl sampleHost (js ''empty.json'') = sampleFile (js ''empty.json'')"
  "dataUrl sampleHost (js ''missing.json'') = sampleFile (js ''missing.json'')"
  "dataUrl demoHost (js ''missing.json'') = sampleFile (js ''missing.json'')"
  by (simp_all add: url_eval sampleHost_def demoHost_def sampleDir_def sampleFile_def js_def)

lemma sampleHost_files:
  "dataFiles sampleHost (sampleFile (js ''genshin.json'')) = Payload (JArr [raiden, hutao])"
  "dataFiles sampleHost (sampleFile (js ''empty.json'')) = Payload (JArr [])"
  "dataFiles sampleHost (sampleFile (js ''missing.json'')) = HttpNotOk"
  by (simp_all add: sampleHost_def sampleFile_def js_def)

lemma sampleHost_genshin:
  "dataFiles sampleHost (dataUrl sampleHost (js ''genshin.json'')) = Payload (JArr [raiden, hutao])"
  by (simp add: dataUrl_sample sampleHost_files)

text \<open>
  A load that fails stores nothing: on a host whose data directory answers with a failure
  status, the name is not in the cache after the load, and a second load of the same
  name fetches it again.
\<close>

lemma normalize_missing: "normalizeJsonFile (Some (js ''missing.json'')) = js ''missing.json''"
  by (simp add: normalizeJsonFile_def js_def trim_def isWhiteSpace_def String_or_empty_def basename_def)

lemma tryLoad_failures:
  "tryLoad NetworkFailure = Inl FetchError" "tryLoad HttpNotOk = Inl HttpError"
  "tryLoad InvalidJson = Inl SyntaxError"
  by (simp_all add: tryLoad_def)

theorem failed_load_not_cached:
  "fileCache (loadCharacterDataForFile demoHost (Some (js ''missing.json''))
               (initialWorld (\<lambda>n. newNode))) (js ''missing.json'') = None
   \<and> fetched (loadCharacterDataForFile demoHost (Some (js ''missing.json''))
               (loadCharacterDataForFile demoHost (Some (js ''missing.json''))
                 (initialWorld (\<lambda>n. newNode))))
       = [sampleFile (js ''missing.json''), sampleFile (js ''missing.json'')]"
proof -
  let ?v = "Some (js ''missing.json'')"
  let ?w = "initialWorld (\<lambda>n. newNode)"
  have name: "normalizeJsonFile ?v \<noteq> []"
    by (simp add: normalize_missing) (simp add: js_def)
  have fail: "\<And>f. tryLoad (dataFiles demoHost f) = Inl HttpError"
    by (simp add: demoHost_def tryLoad_failures)
  have miss: "fileCache ?w (normalizeJsonFile ?v) = None"
    by (simp add: initialWorld_simps)
  have w1: "loadCharacterDataForFile demoHost ?v ?w =
     ?w\<lparr>fetched := fetched ?w @ [dataUrl demoHost (normalizeJsonFile ?v)],
       currentFile := normalizeJsonFile ?v, characterDataMap := Map.empty,
       characterDisplayList := [NO_DATA]\<rparr>"
    by (rule load_miss_failed [OF name miss fail])
  have miss1: "fileCache (loadCharacterDataForFile demoHost ?v ?w) (normalizeJsonFile ?v) = None"
    by (simp add: w1 initialWorld_simps)
  have w2: "fetched (loadCharacterDataForFile demoHost ?v (loadCharacterDataForFile demoHost ?v ?w))
     = fetched (loadCharacterDataForFile demoHost ?v ?w) @ [dataUrl demoHost (normalizeJsonFile ?v)]"
    using fetched_load [of demoHost ?v "loadCharacterDataForFile demoHost ?v ?w"] name miss1
    by simp
  show ?thesis
    using miss1 w2 by (simp add: w1 initialWorld_simps normalize_missing dataUrl_sample)
qed

text \<open>
  C5 (as the code has it): for a name that misses the cache, a load that succeeds stores
  the pair it built under that name, and the next load of the name fetches nothing; a
  load that fails makes the empty index and the sentinel list active, leaves the cache
  as it was, and the next load of the name fetches again.
\<close>

theorem cache_stores_successes_only:
  assumes name: "normalizeJsonFile v \<noteq> []"
    and miss: "fileCache w (normalizeJsonFile v) = None"
  shows "(\<forall>m l. tryLoad (dataFiles h (dataUrl h (normalizeJsonFile v))) = Inr (m, l) \<longrightarrow>
            fileCache (loadCharacterDataForFile h v w) (normalizeJsonFile v)
              = Some \<lparr>map_entry = m, list_entry = l\<rparr>
          \<and> fetched (loadCharacterDataForFile h v (loadCharacterDataForFile h v w))
              = fetched (loadCharacterDataForFile h v w))
       \<and> (\<forall>e. tryLoad (dataFiles h (dataUrl h (normalizeJsonFile v))) = Inl e \<longrightarrow>
            fileCache (loadCharacterDataForFile h v w) = fileCache w
          \<and> characterDataMap (loadCharacterDataForFile h v w) = Map.empty
          \<and> characterDisplayList (loadCharacterDataForFile h v w) = [NO_DATA]
          \<and> fetched (loadCharacterDataForFile h v (loadCharacterDataForFile h v w))
              = fetched (loadCharacterDataForFile h v w) @ [dataUrl h (normalizeJsonFile v)])"
proof (intro conjI allI impI)
  fix m l
  assume ok: "tryLoad (dataFiles h (dataUrl h (normalizeJsonFile v))) = Inr (m, l)"
  note w1 = load_miss_ok [OF name miss ok]
  show hit: "fileCache (loadCharacterDataForFile h v w) (normalizeJsonFile v)
              = Some \<lparr>map_entry = m, list_entry = l\<rparr>"
    by (simp add: w1)
  show "fetched (loadCharacterDataForFile h v (loadCharacterDataForFile h v w))
              = fetched (loadCharacterDataForFile h v w)"
    using fetched_load [of h v "loadCharacterDataForFile h v w"] hit by simp
next
  fix e
  assume bad: "tryLoad (dataFiles h (dataUrl h (normalizeJsonFile v))) = Inl e"
  note w1 = load_miss_failed [OF name miss bad]
  show c: "fileCache (loadCharacterDataForFile h v w) = fileCache w"
    by (simp add: w1)
  show "characterDataMap (loadCharacterDataForFile h v w) = Map.empty"
    by (simp add: w1)
  show "characterDisplayList (loadCharacterDataForFile h v w) = [NO_DATA]"
    by (simp add: w1)
  show "fetched (loadCharacterDataForFile h v (loadCharacterDataForFile h v w))
              = fetched (loadCharacterDataForFile h v w) @ [dataUrl h (normalizeJsonFile v)]"
    using fetched_load [of h v "loadCharacterDataForFile h v w"] name miss c by simp
qed


theorem cache_stores_successes_only_witness:
  "normalizeJsonFile (Some (js ''genshin.json'')) \<noteq> []
   \<and> fileCache (initialWorld (\<lambda>n. newNode)) (normalizeJsonFile (Some (js ''genshin.json''))) = None
   \<and> (\<exists>m l. tryLoad (dataFiles sampleHost (dataUrl sampleHost (normalizeJsonFile (Some (js ''genshin.json''))))) = Inr (m, l))
   \<and> fileCache (loadCharacterDataForFile sampleHost (Some (js ''genshin.json''))
                 (initialWorld (\<lambda>n. newNode))) (js ''genshin.json'') \<noteq> None
   \<and> normalizeJsonFile (Some (js ''missing.json'')) \<noteq> []
   \<and> fileCache (initialWorld (\<lambda>n. newNode)) (normalizeJsonFile (Some (js ''missing.json''))) = None
   \<and> tryLoad (dataFiles sampleHost (dataUrl sampleHost (normalizeJsonFile (Some (js ''missing.json''))))) = Inl HttpError
   \<and> fileCache (loadCharacterDataForFile sampleHost (Some (js ''missing.json''))
                 (initialWorld (\<lambda>n. newNode))) = Map.empty
   \<and> fetched (loadCharacterDataForFile sampleHost (Some (js ''missing.json''))
               (loadCharacterDataForFile sampleHost (Some (js ''missing.json''))
                 (initialWorld (\<lambda>n. newNode))))
       = fetched (loadCharacterDataForFile sampleHost (Some (js ''missing.json''))
                   (initialWorld (\<lambda>n. newNode))) @ [sampleFile (js ''missing.json'')]"
proof -
  let ?g = "Some (js ''genshin.json'')"
  let ?x = "Some (js ''missing.json'')"
  let ?w = "initialWorld (\<lambda>n. newNode)"
  have gname: "normalizeJsonFile ?g \<noteq> []"
    by (simp add: normalize_genshin js_genshin_nonempty)
  have gmiss: "fileCache ?w (normalizeJsonFile ?g) = None"
    by (simp add: initialWorld_simps)
  have gok: "tryLoad (dataFiles sampleHost (dataUrl sampleHost (normalizeJsonFile ?g))) =
     Inr ([RAIDEN_CN @ js '' (Raiden Shogun)'' \<mapsto> raidenPayload,
           RAIDEN_CN \<mapsto> raidenPayload,
           js ''Raiden Shogun'' \<mapsto> raidenPayload,
           HUTAO_CN \<mapsto> hutaoPayload],
          [RAIDEN_CN @ js '' (Raiden Shogun)'', HUTAO_CN])"
    by (simp only: normalize_genshin sampleHost_genshin tryLoad_genshin)
  have xname: "normalizeJsonFile ?x \<noteq> []"
    by (simp add: normalize_missing) (simp add: js_def)
  have xmiss: "fileCache ?w (normalizeJsonFile ?x) = None"
    by (simp add: initialWorld_simps)
  have xbad: "tryLoad (dataFiles sampleHost (dataUrl sampleHost (normalizeJsonFile ?x))) = Inl HttpError"
    by (simp add: normalize_missing dataUrl_sample sampleHost_files tryLoad_failures)
  from cache_stores_successes_only [OF gname gmiss, of sampleHost] gok
  have g: "fileCache (loadCharacterDataForFile sampleHost ?g ?w) (normalizeJsonFile ?g) \<noteq> None"
    by simp
  from cache_stores_successes_only [OF xname xmiss, of sampleHost] xbad
  have x: "fileCache (loadCharacterDataForFile sampleHost ?x ?w) = fileCache ?w
     \<and> fetched (loadCharacterDataForFile sampleHost ?x (loadCharacterDataForFile sampleHost ?x ?w))
         = fetched (loadCharacterDataForFile sampleHost ?x ?w) @ [dataUrl sampleHost (normalizeJsonFile ?x)]"
    by simp
  from gname gmiss gok g xname xmiss xbad x show ?thesis
    by (simp add: normalize_genshin normalize_missing initialWorld_simps dataUrl_sample)
qed

section \<open>Updating the preview with no icon\<close>

text \<open>
  C8: an update of the preview with an empty or blank icon URL clears the image source,
  sets the status text of an absent preview, and requests no image.
\<close>

theorem blank_icon_gives_empty_preview:
  "trim iconUrl = [] \<Longrightarrow>
     img_src (updateImage h iconUrl nd) = []
   \<and> statusText (updateImage h iconUrl nd) = NO_PREVIEW
   \<and> requested (updateImage h iconUrl nd) = requested nd"
  by (simp add: updateImage_def buildPreviewSrc_def)

theorem blank_icon_gives_empty_preview_witness:
  "trim (js ''  '') = []
   \<and> img_src (updateImage sampleHost (js ''  '') newNode) = []
   \<and> statusText (updateImage sampleHost (js ''  '') newNode) = NO_PREVIEW
   \<and> requested (updateImage sampleHost (js ''  '') newNode) = []"
proof -
  have blank: "trim (js ''  '') = []"
    by (simp add: js_def trim_def isWhiteSpace_def)
  from blank_icon_gives_empty_preview [OF blank, of sampleHost newNode] blank
  show ?thesis by (simp add: newNode_def)
qed

section \<open>The display list is kept non-empty by loads\<close>

lemma load_keeps_cache_lists:
  assumes "cacheListsNonEmpty w"
  shows "cacheListsNonEmpty (loadCharacterDataForFile h v w)"
proof (cases "normalizeJsonFile v = []")
  case True
  with assms show ?thesis by (simp add: load_rejected cacheListsNonEmpty_def)
next
  case name: False
  show ?thesis
  proof (cases "fileCache w (normalizeJsonFile v)")
    case (Some c)
    with assms name show ?thesis by (simp add: load_hit cacheListsNonEmpty_def)
  next
    case None
    show ?thesis
    proof (cases "tryLoad (dataFiles h (dataUrl h (normalizeJsonFile v)))")
      case (Inl e)
      with assms name None show ?thesis by (simp add: load_miss_failed cacheListsNonEmpty_def)
    next
      case (Inr r)
      obtain m l where r: "r = (m, l)" by (cases r)
      with Inr have l: "l \<noteq> []" by (auto dest: tryLoad_list_nonempty)
      from Inr r have ok: "tryLoad (dataFiles h (dataUrl h (normalizeJsonFile v))) = Inr (m, l)" by simp
      show ?thesis
        using assms l None by (simp add: load_miss_ok [OF name None ok] cacheListsNonEmpty_def)
    qed
  qed
qed

lemma load_list_nonempty:
  assumes "cacheListsNonEmpty w"
  shows "characterDisplayList (loadCharacterDataForFile h v w) \<noteq> []"
proof (cases "normalizeJsonFile v = []")
  case True
  then show ?thesis by (simp add: load_rejected)
next
  case name: False
  show ?thesis
  proof (cases "fileCache w (normalizeJsonFile v)")
    case (Some c)
    then have "c \<in> ran (fileCache w)" by (auto simp: ran_def)
    with assms have "list_entry c \<noteq> []" by (simp add: cacheListsNonEmpty_def)
    with name Some show ?thesis by (simp add: load_hit)
  next
    case None
    show ?thesis
    proof (cases "tryLoad (dataFiles h (dataUrl h (normalizeJsonFile v)))")
      case (Inl e)
      with name None show ?thesis by (simp add: load_miss_failed)
    next
      case (Inr r)
      obtain m l where r: "r = (m, l)" by (cases r)
      with Inr have l: "l \<noteq> []" by (auto dest: tryLoad_list_nonempty)
      from Inr r have ok: "tryLoad (dataFiles h (dataUrl h (normalizeJsonFile v))) = Inr (m, l)" by simp
      show ?thesis using l by (simp add: load_miss_ok [OF name None ok])
    qed
  qed
qed

lemma refresh_globals:
  "characterDisplayList (refresh h n w) = characterDisplayList w"
  "fileCache (refresh h n w) = fileCache w"
  "characterDataMap (refresh h n w) = characterDataMap w"
  "currentFile (refresh h n w) = currentFile w"
  "fetched (refresh h n w) = fetched w"
  by (simp_all add: refresh_def Let_def)

lemma setNode_globals:
  "characterDisplayList (setNode n f w) = characterDisplayList w"
  "fileCache (setNode n f w) = fileCache w"
  "characterDataMap (setNode n f w) = characterDataMap w"
  "currentFile (setNode n f w) = currentFile w"
  "fetched (setNode n f w) = fetched w"
  by (simp_all add: setNode_def)

lemma characterWidget_callback_globals:
  "characterDisplayList (characterWidget_callback h n v w) = characterDisplayList w"
  "fileCache (characterWidget_callback h n v w) = fileCache w"
  "characterDataMap (characterWidget_callback h n v w) = characterDataMap w"
  "currentFile (characterWidget_callback h n v w) = currentFile w"
  "fetched (characterWidget_callback h n v w) = fetched w"
  by (simp_all add: characterWidget_callback_def)

lemma cacheListsNonEmpty_frames:
  "cacheListsNonEmpty (refresh h n w) = cacheListsNonEmpty w"
  "cacheListsNonEmpty (setNode n f w) = cacheListsNonEmpty w"
  "cacheListsNonEmpty (characterWidget_callback h n v w) = cacheListsNonEmpty w"
  by (simp_all add: cacheListsNonEmpty_def refresh_globals setNode_globals
      characterWidget_callback_globals)

lemma step_keeps_cache_lists:
  "cacheListsNonEmpty w \<Longrightarrow> cacheListsNonEmpty (step h e w)"
  by (cases e)
     (simp_all add: init_def jsonWidget_callback_def onConfigure_def cacheListsNonEmpty_frames
        load_keeps_cache_lists)

lemma step_list_nonempty:
  assumes "cacheListsNonEmpty w" and "isLoadEvent e \<or> characterDisplayList w \<noteq> []"
  shows "characterDisplayList (step h e w) \<noteq> []"
  using assms
  by (cases e)
     (simp_all add: init_def jsonWidget_callback_def onConfigure_def refresh_globals
        setNode_globals characterWidget_callback_globals cacheListsNonEmpty_frames
        load_list_nonempty)

lemma run_list_nonempty:
  "cacheListsNonEmpty w \<Longrightarrow>
   (\<exists>he \<in> set es. isLoadEvent (snd he)) \<or> characterDisplayList w \<noteq> [] \<Longrightarrow>
   characterDisplayList (run es w) \<noteq> []"
proof (induction es arbitrary: w)
  case Nil
  then show ?case by simp
next
  case (Cons he es)
  obtain h e where he: "he = (h, e)" by (cases he)
  have c: "cacheListsNonEmpty (step h e w)"
    using Cons.prems(1) by (rule step_keeps_cache_lists)
  show ?case
  proof (cases "isLoadEvent e \<or> characterDisplayList w \<noteq> []")
    case True
    with Cons.prems(1) have "characterDisplayList (step h e w) \<noteq> []"
      by (rule step_list_nonempty)
    with Cons.IH [OF c] he show ?thesis by simp
  next
    case False
    with Cons.prems(2) he have "\<exists>he \<in> set es. isLoadEvent (snd he)" by auto
    with Cons.IH [OF c] he show ?thesis by simp
  qed
qed

text \<open>
  Before the first load the display list is empty: the module starts with
  \<open>characterDisplayList = []\<close>.
\<close>

theorem initial_display_list_empty:
  "characterDisplayList (run [] (initialWorld (\<lambda>n. newNode))) = []"
  by (simp add: initialWorld_simps)

lemma initial_cache_lists: "cacheListsNonEmpty (initialWorld ns)"
  by (simp add: cacheListsNonEmpty_def initialWorld_simps)

text \<open>
  C7 (as the code has it): after a load whose name is rejected, whose fetch or parse
  fails, or whose array is empty, the active display list is the single sentinel entry
  and the active index is empty; and in every state reached from the initial one by a
  run in which a load has happened, the display list is not empty.
\<close>

theorem load_fallback_and_nonempty_list:
  "(normalizeJsonFile v = [] \<longrightarrow>
      characterDisplayList (loadCharacterDataForFile h v w) = [NO_DATA]
    \<and> characterDataMap (loadCharacterDataForFile h v w) = Map.empty)
   \<and> (normalizeJsonFile v \<noteq> [] \<and> fileCache w (normalizeJsonFile v) = None
      \<and> tryLoad (dataFiles h (dataUrl h (normalizeJsonFile v))) = Inl e \<longrightarrow>
      characterDisplayList (loadCharacterDataForFile h v w) = [NO_DATA]
    \<and> characterDataMap (loadCharacterDataForFile h v w) = Map.empty)
   \<and> (normalizeJsonFile v \<noteq> [] \<and> fileCache w (normalizeJsonFile v) = None
      \<and> dataFiles h (dataUrl h (normalizeJsonFile v)) = Payload (JArr []) \<longrightarrow>
      characterDisplayList (loadCharacterDataForFile h v w) = [NO_DATA]
    \<and> characterDataMap (loadCharacterDataForFile h v w) = Map.empty)
   \<and> ((\<exists>he \<in> set es. isLoadEvent (snd he)) \<longrightarrow>
      characterDisplayList (run es (initialWorld ns)) \<noteq> [])"
proof (intro conjI impI)
  assume "normalizeJsonFile v = []"
  then show "characterDisplayList (loadCharacterDataForFile h v w) = [NO_DATA]"
    and "characterDataMap (loadCharacterDataForFile h v w) = Map.empty"
    by (simp_all add: load_rejected)
next
  assume a: "normalizeJsonFile v \<noteq> [] \<and> fileCache w (normalizeJsonFile v) = None
      \<and> tryLoad (dataFiles h (dataUrl h (normalizeJsonFile v))) = Inl e"
  then have "loadCharacterDataForFile h v w =
     w\<lparr>fetched := fetched w @ [dataUrl h (normalizeJsonFile v)],
       currentFile := normalizeJsonFile v, characterDataMap := Map.empty,
       characterDisplayList := [NO_DATA]\<rparr>"
    by (intro load_miss_failed) simp_all
  then show "characterDisplayList (loadCharacterDataForFile h v w) = [NO_DATA]"
    and "characterDataMap (loadCharacterDataForFile h v w) = Map.empty"
    by simp_all
next
  assume a: "normalizeJsonFile v \<noteq> [] \<and> fileCache w (normalizeJsonFile v) = None
      \<and> dataFiles h (dataUrl h (normalizeJsonFile v)) = Payload (JArr [])"
  then have "tryLoad (dataFiles h (dataUrl h (normalizeJsonFile v))) = Inr (Map.empty, [NO_DATA])"
    by (simp add: tryLoad_empty_array)
  with a have "loadCharacterDataForFile h v w =
     w\<lparr>fetched := fetched w @ [dataUrl h (normalizeJsonFile v)],
       fileCache := (fileCache w)(normalizeJsonFile v \<mapsto>
                      \<lparr>map_entry = Map.empty, list_entry = [NO_DATA]\<rparr>),
       currentFile := normalizeJsonFile v, characterDataMap := Map.empty,
       characterDisplayList := [NO_DATA]\<rparr>"
    by (intro load_miss_ok) simp_all
  then show "characterDisplayList (loadCharacterDataForFile h v w) = [NO_DATA]"
    and "characterDataMap (loadCharacterDataForFile h v w) = Map.empty"
    by simp_all
next
  assume "\<exists>he \<in> set es. isLoadEvent (snd he)"
  then show "characterDisplayList (run es (initialWorld ns)) \<noteq> []"
    using run_list_nonempty [OF initial_cache_lists, of es ns] by blast
qed

lemma normalize_empty_json: "normalizeJsonFile (Some (js ''empty.json'')) = js ''empty.json''"
  by (simp add: normalizeJsonFile_def js_def trim_def isWhiteSpace_def String_or_empty_def basename_def)

lemma normalize_None: "normalizeJsonFile None = []"
  by (simp add: normalizeJsonFile_def trim_def String_or_empty_def)

theorem load_fallback_and_nonempty_list_witness:
  "normalizeJsonFile None = []
   \<and> characterDisplayList (loadCharacterDataForFile sampleHost None (initialWorld (\<lambda>n. newNode)))
       = [NO_DATA]
   \<and> tryLoad (dataFiles sampleHost (dataUrl sampleHost (normalizeJsonFile (Some (js ''missing.json''))))) = Inl HttpError
   \<and> characterDisplayList
        (loadCharacterDataForFile sampleHost (Some (js ''missing.json'')) (initialWorld (\<lambda>n. newNode)))
       = [NO_DATA]
   \<and> dataFiles sampleHost (dataUrl sampleHost (normalizeJsonFile (Some (js ''empty.json'')))) = Payload (JArr [])
   \<and> characterDisplayList
        (loadCharacterDataForFile sampleHost (Some (js ''empty.json'')) (initialWorld (\<lambda>n. newNode)))
       = [NO_DATA]
   \<and> (\<exists>he \<in> set [(sampleHost, NodeCreated 0)]. isLoadEvent (snd he))
   \<and> characterDisplayList (run [(sampleHost, NodeCreated 0)] (initialWorld (\<lambda>n. newNode))) \<noteq> []"
proof -
  let ?w = "initialWorld (\<lambda>n. newNode)"
  let ?x = "Some (js ''missing.json'')"
  let ?e = "Some (js ''empty.json'')"
  have xname: "normalizeJsonFile ?x \<noteq> []"
    by (simp add: normalize_missing) (simp add: js_def)
  have xbad: "tryLoad (dataFiles sampleHost (dataUrl sampleHost (normalizeJsonFile ?x))) = Inl HttpError"
    by (simp add: normalize_missing dataUrl_sample sampleHost_files tryLoad_failures)
  have ename: "normalizeJsonFile ?e \<noteq> []"
    by (simp add: normalize_empty_json) (simp add: js_def)
  have edata: "dataFiles sampleHost (dataUrl sampleHost (normalizeJsonFile ?e)) = Payload (JArr [])"
    by (simp add: normalize_empty_json dataUrl_sample sampleHost_files)
  have miss: "\<And>f. fileCache ?w f = None"
    by (simp add: initialWorld_simps)
  have ev: "\<exists>he \<in> set [(sampleHost, NodeCreated 0)]. isLoadEvent (snd he)"
    by simp
  have 1: "characterDisplayList (loadCharacterDataForFile sampleHost None ?w) = [NO_DATA]"
    using load_fallback_and_nonempty_list [where v = None and h = sampleHost and w = ?w] normalize_None by blast
  have 2: "characterDisplayList (loadCharacterDataForFile sampleHost ?x ?w) = [NO_DATA]"
    using load_fallback_and_nonempty_list [where v = ?x and h = sampleHost and w = ?w and e = HttpError] xname xbad miss
    by blast
  have 3: "characterDisplayList (loadCharacterDataForFile sampleHost ?e ?w) = [NO_DATA]"
    using load_fallback_and_nonempty_list [where v = ?e and h = sampleHost and w = ?w] ename edata miss
    by blast
  have 4: "characterDisplayList (run [(sampleHost, NodeCreated 0)] ?w) \<noteq> []"
    using load_fallback_and_nonempty_list [where es = "[(sampleHost, NodeCreated 0)]"
        and ns = "\<lambda>n. newNode"] ev
    by blast
  from normalize_None xbad edata ev 1 2 3 4 show ?thesis by blast
qed

section \<open>Display names and aliases\<close>

lemma trim_Nil: "trim [] = []"
  by (simp add: trim_def)

lemma field_string_or_absent:
  "getField char k = Inr (Some (JStr s)) \<Longrightarrow> field char k = Inr (trim s)"
  "getField char k = Inr None \<Longrightarrow> field char k = Inr []"
  by (simp_all add: field_def trim_Nil)

lemma mkPayload_fields:
  assumes "field char (js ''name_cn'') = Inr a" and "field char (js ''name_en'') = Inr b"
    and "field char (js ''icon_url'') = Inr i"
  shows "mkPayload char =
     Inr \<lparr>icon_url = i, name_cn = a, name_en = b, displayName = displayNameOf a b\<rparr>"
  using assms by (simp add: mkPayload_def)

text \<open>
  C6: a field that is a string is read trimmed and an absent field as the empty string;
  from the two names so read, the display name is \<open>A (B)\<close> when both are non-empty,
  else the one that is non-empty, else the placeholder. The record of Raiden Shogun has
  the display name made of both names, and its three aliases resolve to it; the record
  with only the Chinese name of Hu Tao has that name as display name and as its only
  alias.
\<close>

theorem displayName_and_aliases:
  "(getField char k = Inr (Some (JStr s)) \<longrightarrow> field char k = Inr (trim s))
   \<and> (getField char k = Inr None \<longrightarrow> field char k = Inr [])
   \<and> (field char (js ''name_cn'') = Inr a \<and> field char (js ''name_en'') = Inr b
       \<and> field char (js ''icon_url'') = Inr i \<longrightarrow>
       (\<exists>p. mkPayload char = Inr p \<and> name_cn p = a \<and> name_en p = b \<and>
            displayName p =
              (if a \<noteq> [] \<and> b \<noteq> [] then a @ js '' ('' @ b @ js '')''
               else if a \<noteq> [] then a
               else if b \<noteq> [] then b
               else UNNAMED)))
   \<and> (\<exists>m p. tryLoad (Payload (JArr [raiden])) = Inr (m, [RAIDEN_CN @ js '' (Raiden Shogun)''])
         \<and> displayName p = RAIDEN_CN @ js '' (Raiden Shogun)''
         \<and> m (RAIDEN_CN @ js '' (Raiden Shogun)'') = Some p
         \<and> m RAIDEN_CN = Some p
         \<and> m (js ''Raiden Shogun'') = Some p)
   \<and> (\<exists>m p. tryLoad (Payload (JArr [hutao])) = Inr (m, [HUTAO_CN])
         \<and> displayName p = HUTAO_CN
         \<and> dom m = {HUTAO_CN}
         \<and> m HUTAO_CN = Some p)"
proof (intro conjI impI)
  assume "getField char k = Inr (Some (JStr s))"
  then show "field char k = Inr (trim s)" by (rule field_string_or_absent)
next
  assume "getField char k = Inr None"
  then show "field char k = Inr []" by (rule field_string_or_absent)
next
  assume "field char (js ''name_cn'') = Inr a \<and> field char (js ''name_en'') = Inr b
       \<and> field char (js ''icon_url'') = Inr i"
  then have "mkPayload char =
     Inr \<lparr>icon_url = i, name_cn = a, name_en = b, displayName = displayNameOf a b\<rparr>"
    by (intro mkPayload_fields) simp_all
  then show "\<exists>p. mkPayload char = Inr p \<and> name_cn p = a \<and> name_en p = b \<and>
            displayName p =
              (if a \<noteq> [] \<and> b \<noteq> [] then a @ js '' ('' @ b @ js '')''
               else if a \<noteq> [] then a
               else if b \<noteq> [] then b
               else UNNAMED)"
    by (simp add: displayNameOf_def)
next
  have ne: "RAIDEN_CN \<noteq> js ''Raiden Shogun''"
    "RAIDEN_CN @ js '' (Raiden Shogun)'' \<noteq> js ''Raiden Shogun''"
    "RAIDEN_CN @ js '' (Raiden Shogun)'' \<noteq> RAIDEN_CN"
    by (simp_all add: RAIDEN_CN_def js_def)
  let ?m = "[RAIDEN_CN @ js '' (Raiden Shogun)'' \<mapsto> raidenPayload,
           RAIDEN_CN \<mapsto> raidenPayload,
           js ''Raiden Shogun'' \<mapsto> raidenPayload]"
  have "tryLoad (Payload (JArr [raiden])) = Inr (?m, [RAIDEN_CN @ js '' (Raiden Shogun)''])"
    by (rule tryLoad_raiden)
  moreover have "displayName raidenPayload = RAIDEN_CN @ js '' (Raiden Shogun)''"
    by (simp add: raidenPayload_def)
  moreover have "?m (RAIDEN_CN @ js '' (Raiden Shogun)'') = Some raidenPayload"
    using ne by simp
  moreover have "?m RAIDEN_CN = Some raidenPayload"
    using ne by simp
  moreover have "?m (js ''Raiden Shogun'') = Some raidenPayload"
    by simp
  ultimately show "\<exists>m p. tryLoad (Payload (JArr [raiden])) = Inr (m, [RAIDEN_CN @ js '' (Raiden Shogun)''])
         \<and> displayName p = RAIDEN_CN @ js '' (Raiden Shogun)''
         \<and> m (RAIDEN_CN @ js '' (Raiden Shogun)'') = Some p
         \<and> m RAIDEN_CN = Some p
         \<and> m (js ''Raiden Shogun'') = Some p"
    by blast
next
  have "tryLoad (Payload (JArr [hutao])) = Inr ([HUTAO_CN \<mapsto> hutaoPayload], [HUTAO_CN])"
    by (rule tryLoad_hutao)
  moreover have "displayName hutaoPayload = HUTAO_CN"
    by (simp add: hutaoPayload_def)
  moreover have "dom [HUTAO_CN \<mapsto> hutaoPayload] = {HUTAO_CN}"
    by simp
  moreover have "[HUTAO_CN \<mapsto> hutaoPayload] HUTAO_CN = Some hutaoPayload"
    by simp
  ultimately show "\<exists>m p. tryLoad (Payload (JArr [hutao])) = Inr (m, [HUTAO_CN])
         \<and> displayName p = HUTAO_CN
         \<and> dom m = {HUTAO_CN}
         \<and> m HUTAO_CN = Some p"
    by blast
qed

lemma field_raiden:
  "getField raiden (js ''name_cn'') = Inr (Some (JStr RAIDEN_CN))"
  "field raiden (js ''name_cn'') = Inr RAIDEN_CN"
  "field raiden (js ''name_en'') = Inr (js ''Raiden Shogun'')"
  "field raiden (js ''icon_url'') = Inr (js ''https://example.com/raiden.png'')"
  by (simp_all add: raiden_def field_def js_def trim_def isWhiteSpace_def RAIDEN_CN_def)

lemma field_hutao:
  "getField hutao (js ''name_en'') = Inr None"
  by (simp add: hutao_def js_def)

theorem displayName_and_aliases_witness:
  "getField raiden (js ''name_cn'') = Inr (Some (JStr RAIDEN_CN))
   \<and> field raiden (js ''name_cn'') = Inr (trim RAIDEN_CN)
   \<and> getField hutao (js ''name_en'') = Inr None
   \<and> field hutao (js ''name_en'') = Inr []
   \<and> field raiden (js ''name_cn'') = Inr RAIDEN_CN
   \<and> field raiden (js ''name_en'') = Inr (js ''Raiden Shogun'')
   \<and> field raiden (js ''icon_url'') = Inr (js ''https://example.com/raiden.png'')
   \<and> (\<exists>p. mkPayload raiden = Inr p \<and> displayName p = RAIDEN_CN @ js '' (Raiden Shogun)'')"
proof -
  have ne: "RAIDEN_CN \<noteq> []" "js ''Raiden Shogun'' \<noteq> []"
    by (simp_all add: RAIDEN_CN_def js_def)
  from displayName_and_aliases [where char = raiden and k = "js ''name_cn''" and s = RAIDEN_CN
      and a = RAIDEN_CN and b = "js ''Raiden Shogun''"
      and i = "js ''https://example.com/raiden.png''"] field_raiden ne
  have r: "field raiden (js ''name_cn'') = Inr (trim RAIDEN_CN)"
    "\<exists>p. mkPayload raiden = Inr p \<and> displayName p = RAIDEN_CN @ js '' (Raiden Shogun)''"
    by (auto simp: js_def)
  from displayName_and_aliases [where char = hutao and k = "js ''name_en''"] field_hutao
  have h: "field hutao (js ''name_en'') = Inr []"
    by blast
  from r h field_raiden field_hutao show ?thesis by blast
qed

section \<open>A second load of a name\<close>

lemma load_nodes: "nodes (loadCharacterDataForFile h v w) = nodes w"
  by (simp add: loadCharacterDataForFile_def Let_def split: option.splits sum.splits prod.splits)

lemma load_keeps_cache_entry:
  "fileCache w f = Some c \<Longrightarrow> fileCache (loadCharacterDataForFile h v w) f = Some c"
  by (auto simp: loadCharacterDataForFile_def Let_def split: option.splits sum.splits)

lemma cache_frames:
  "fileCache (refresh h n w) = fileCache w"
  "fileCache (setNode n f w) = fileCache w"
  "fileCache (characterWidget_callback h n v w) = fileCache w"
  by (simp_all add: refresh_globals setNode_globals characterWidget_callback_globals)

lemma step_keeps_cache_entry:
  "fileCache w f = Some c \<Longrightarrow> fileCache (step h e w) f = Some c"
  by (cases e)
     (simp_all add: init_def jsonWidget_callback_def onConfigure_def cache_frames
        load_keeps_cache_entry)

lemma run_keeps_cache_entry:
  "fileCache w f = Some c \<Longrightarrow> fileCache (run es w) f = Some c"
proof (induction es arbitrary: w)
  case Nil
  then show ?case by simp
next
  case (Cons he es)
  obtain h e where "he = (h, e)" by (cases he)
  with Cons show ?case by (simp add: step_keeps_cache_entry)
qed

text \<open>
  C4: when a first load of a name misses the cache and succeeds, then, whatever events
  run afterwards on the same host (loads of other names among them), a second load of
  the same name makes active the index and display list that the first load built, and
  fetches nothing: the first load fetched the file once, the second not at all.
\<close>

theorem second_load_hits_cache:
  assumes name: "normalizeJsonFile v \<noteq> []"
    and miss: "fileCache w (normalizeJsonFile v) = None"
    and ok: "tryLoad (dataFiles h (dataUrl h (normalizeJsonFile v))) = Inr r"
    and same: "normalizeJsonFile v' = normalizeJsonFile v"
    and w1: "w1 = loadCharacterDataForFile h v w"
    and w2: "w2 = run (map (Pair h) evs) w1"
    and w3: "w3 = loadCharacterDataForFile h v' w2"
  shows "(characterDataMap w1, characterDisplayList w1) = r
       \<and> (characterDataMap w3, characterDisplayList w3) = r
       \<and> currentFile w3 = normalizeJsonFile v
       \<and> fetched w1 = fetched w @ [dataUrl h (normalizeJsonFile v)]
       \<and> fetched w3 = fetched w2"
proof -
  obtain m l where r: "r = (m, l)" by (cases r)
  have first: "w1 = w\<lparr>fetched := fetched w @ [dataUrl h (normalizeJsonFile v)],
       fileCache := (fileCache w)(normalizeJsonFile v \<mapsto> \<lparr>map_entry = m, list_entry = l\<rparr>),
       currentFile := normalizeJsonFile v, characterDataMap := m,
       characterDisplayList := l\<rparr>"
    unfolding w1 using load_miss_ok [OF name miss] ok r by simp
  then have "fileCache w1 (normalizeJsonFile v) = Some \<lparr>map_entry = m, list_entry = l\<rparr>"
    by simp
  then have hit: "fileCache w2 (normalizeJsonFile v') = Some \<lparr>map_entry = m, list_entry = l\<rparr>"
    unfolding w2 same by (rule run_keeps_cache_entry)
  have name': "normalizeJsonFile v' \<noteq> []"
    using name same by simp
  have second: "w3 = w2\<lparr>currentFile := normalizeJsonFile v', characterDataMap := m,
       characterDisplayList := l\<rparr>"
    unfolding w3 using load_hit [OF name' hit, of h] by simp
  show ?thesis
    by (simp add: second same) (simp add: first r)
qed

lemma normalize_empty_name: "normalizeJsonFile (Some (js ''empty.json'')) \<noteq> []"
  by (simp add: normalize_empty_json) (simp add: js_def)

lemma empty_index:
  assumes "fileCache w (js ''empty.json'') = None"
  shows "characterDisplayList (loadCharacterDataForFile sampleHost (Some (js ''empty.json'')) w)
           = [NO_DATA]"
    and "fetched (loadCharacterDataForFile sampleHost (Some (js ''empty.json'')) w)
           = fetched w @ [sampleFile (js ''empty.json'')]"
proof -
  let ?e = "Some (js ''empty.json'')"
  have miss: "fileCache w (normalizeJsonFile ?e) = None"
    using assms by (simp add: normalize_empty_json)
  have ok: "tryLoad (dataFiles sampleHost (dataUrl sampleHost (normalizeJsonFile ?e)))
      = Inr (Map.empty, [NO_DATA])"
    by (simp add: normalize_empty_json dataUrl_sample sampleHost_files tryLoad_empty_array)
  note w1 = load_miss_ok [OF normalize_empty_name miss ok]
  show "characterDisplayList (loadCharacterDataForFile sampleHost ?e w) = [NO_DATA]"
    by (simp add: w1)
  show "fetched (loadCharacterDataForFile sampleHost ?e w)
           = fetched w @ [sampleFile (js ''empty.json'')]"
    by (simp add: w1 normalize_empty_json dataUrl_sample)
qed

theorem second_load_hits_cache_witness:
  "normalizeJsonFile (Some (js ''genshin.json'')) \<noteq> []
   \<and> fileCache (initialWorld (\<lambda>n. newNode)) (normalizeJsonFile (Some (js ''genshin.json''))) = None
   \<and> (\<exists>r. tryLoad (dataFiles sampleHost
             (dataUrl sampleHost (normalizeJsonFile (Some (js ''genshin.json''))))) = Inr r)
   \<and> characterDisplayList
        (run (map (Pair sampleHost) [HandlerLoad 1])
          (loadCharacterDataForFile sampleHost (Some (js ''genshin.json''))
            (initialWorld (\<lambda>n. emptyNode))))
       = [NO_DATA]
   \<and> characterDisplayList
        (loadCharacterDataForFile sampleHost (Some (js ''genshin.json''))
          (run (map (Pair sampleHost) [HandlerLoad 1])
            (loadCharacterDataForFile sampleHost (Some (js ''genshin.json''))
              (initialWorld (\<lambda>n. emptyNode)))))
       = [RAIDEN_CN @ js '' (Raiden Shogun)'', HUTAO_CN]
   \<and> fetched
        (loadCharacterDataForFile sampleHost (Some (js ''genshin.json''))
          (run (map (Pair sampleHost) [HandlerLoad 1])
            (loadCharacterDataForFile sampleHost (Some (js ''genshin.json''))
              (initialWorld (\<lambda>n. emptyNode)))))
       = [sampleFile (js ''genshin.json''), sampleFile (js ''empty.json'')]"
proof -
  let ?v = "Some (js ''genshin.json'')"
  let ?w = "initialWorld (\<lambda>n. emptyNode)"
  let ?w1 = "loadCharacterDataForFile sampleHost ?v ?w"
  let ?w2 = "run (map (Pair sampleHost) [HandlerLoad 1]) ?w1"
  let ?w3 = "loadCharacterDataForFile sampleHost ?v ?w2"
  have name: "normalizeJsonFile ?v \<noteq> []"
    by (simp add: normalize_genshin js_genshin_nonempty)
  have miss: "fileCache ?w (normalizeJsonFile ?v) = None"
    and miss': "fileCache (initialWorld (\<lambda>n. newNode)) (normalizeJsonFile ?v) = None"
    by (simp_all add: initialWorld_simps)
  have ok: "tryLoad (dataFiles sampleHost (dataUrl sampleHost (normalizeJsonFile ?v))) =
     Inr ([RAIDEN_CN @ js '' (Raiden Shogun)'' \<mapsto> raidenPayload,
           RAIDEN_CN \<mapsto> raidenPayload,
           js ''Raiden Shogun'' \<mapsto> raidenPayload,
           HUTAO_CN \<mapsto> hutaoPayload],
          [RAIDEN_CN @ js '' (Raiden Shogun)'', HUTAO_CN])"
    by (simp only: normalize_genshin sampleHost_genshin tryLoad_genshin)
  note first = load_miss_ok [OF name miss ok]
  have names: "js ''empty.json'' \<noteq> js ''genshin.json''"
    by (simp add: js_def)
  have jv: "jsonValue (nodes ?w1 1) = Some (js ''empty.json'')"
    by (simp add: load_nodes initialWorld_simps emptyNode_def)
  have c1: "fileCache ?w1 (js ''empty.json'') = None"
    using names by (simp add: first initialWorld_simps normalize_genshin)
  have w2: "?w2 = loadCharacterDataForFile sampleHost (Some (js ''empty.json'')) ?w1"
    by (simp add: jv del: One_nat_def)
  have between: "characterDisplayList ?w2 = [NO_DATA]"
    and log2: "fetched ?w2 = fetched ?w1 @ [sampleFile (js ''empty.json'')]"
    unfolding w2 by (rule empty_index [OF c1])+
  have log1: "fetched ?w1 = [sampleFile (js ''genshin.json'')]"
    by (simp add: first initialWorld_simps normalize_genshin dataUrl_sample)
  from second_load_hits_cache [OF name miss ok refl refl refl refl, where evs = "[HandlerLoad 1]"]
  have "characterDisplayList ?w3 = [RAIDEN_CN @ js '' (Raiden Shogun)'', HUTAO_CN]"
    and "fetched ?w3 = fetched ?w2"
    by simp_all
  with name miss' ok between log1 log2 show ?thesis
    by simp
qed

section \<open>The module state is shared by the nodes\<close>

lemma proxy_nonempty: "trim u \<noteq> [] \<Longrightarrow> buildPreviewSrc h u \<noteq> []"
  by (simp add: buildPreviewSrc_def Let_def js_def)

lemma updateImage_request:
  "trim u \<noteq> [] \<Longrightarrow>
   updateImage h u nd =
     nd\<lparr>statusText := LOADING, redraws := Suc (redraws nd),
        img_src := buildPreviewSrc h u, requested := requested nd @ [buildPreviewSrc h u]\<rparr>"
  by (simp add: updateImage_def Let_def proxy_nonempty)

lemma load_setNode:
  "loadCharacterDataForFile h v (setNode n f w) = setNode n f (loadCharacterDataForFile h v w)"
  by (simp add: loadCharacterDataForFile_def setNode_def Let_def
      split: option.splits sum.splits prod.splits)

lemma nodes_setNode: "nodes (setNode n f w) = (nodes w)(n := f (nodes w n))"
  by (simp add: setNode_def)

lemma refresh_other: "m \<noteq> n \<Longrightarrow> nodes (refresh h n w) m = nodes w m"
  by (simp add: refresh_def Let_def)

lemma jsonWidget_callback_globals:
  "characterDataMap (jsonWidget_callback h n w)
     = characterDataMap (loadCharacterDataForFile h (jsonValue (nodes w n)) w)"
  "characterDisplayList (jsonWidget_callback h n w)
     = characterDisplayList (loadCharacterDataForFile h (jsonValue (nodes w n)) w)"
  "currentFile (jsonWidget_callback h n w)
     = currentFile (loadCharacterDataForFile h (jsonValue (nodes w n)) w)"
  by (simp_all add: jsonWidget_callback_def refresh_globals)

text \<open>
  C2 (as the code has it): the active file name, index and display list are variables
  of the module, one copy for all nodes. A dataset change on node \<open>n\<close> sets them to what
  the load for \<open>n\<close> gives, and a later character change on another node \<open>m\<close> resolves
  its value through that index; a character change leaves them as they are. What a node
  owns is its widget state: the widgets and the preview of \<open>m\<close> are unchanged by a
  dataset change or a character change on \<open>n\<close>.
\<close>

theorem module_state_is_shared:
  assumes "m \<noteq> n"
  shows "nodes (jsonWidget_callback h n w) m = nodes w m
       \<and> nodes (characterWidget_callback h n v w) m = nodes w m
       \<and> characterDataMap (characterWidget_callback h n v w) = characterDataMap w
       \<and> characterDisplayList (characterWidget_callback h n v w) = characterDisplayList w
       \<and> currentFile (characterWidget_callback h n v w) = currentFile w
       \<and> characterDataMap (jsonWidget_callback h n w)
           = characterDataMap (loadCharacterDataForFile h (jsonValue (nodes w n)) w)
       \<and> characterDisplayList (jsonWidget_callback h n w)
           = characterDisplayList (loadCharacterDataForFile h (jsonValue (nodes w n)) w)
       \<and> currentFile (jsonWidget_callback h n w)
           = currentFile (loadCharacterDataForFile h (jsonValue (nodes w n)) w)
       \<and> nodes (characterWidget_callback h m v (jsonWidget_callback h n w)) m
           = updateImage h
               (resolveIcon
                  (characterDataMap (loadCharacterDataForFile h (jsonValue (nodes w n)) w)) v)
               (nodes w m)"
proof -
  have other: "nodes (jsonWidget_callback h n w) m = nodes w m"
    using assms by (simp add: jsonWidget_callback_def refresh_other load_nodes)
  have "nodes (characterWidget_callback h n v w) m = nodes w m"
    using assms by (simp add: characterWidget_callback_def)
  moreover have "nodes (characterWidget_callback h m v (jsonWidget_callback h n w)) m
           = updateImage h
               (resolveIcon
                  (characterDataMap (loadCharacterDataForFile h (jsonValue (nodes w n)) w)) v)
               (nodes w m)"
    by (simp add: characterWidget_callback_def other jsonWidget_callback_globals)
  ultimately show ?thesis
    using other by (simp add: characterWidget_callback_globals jsonWidget_callback_globals)
qed


lemma step_JsonChange_globals:
  "characterDataMap (step h (JsonChange n v) w) = characterDataMap (loadCharacterDataForFile h v w)"
  "characterDisplayList (step h (JsonChange n v) w)
     = characterDisplayList (loadCharacterDataForFile h v w)"
  "currentFile (step h (JsonChange n v) w) = currentFile (loadCharacterDataForFile h v w)"
  "fileCache (step h (JsonChange n v) w) = fileCache (loadCharacterDataForFile h v w)"
  by (simp_all add: jsonWidget_callback_def refresh_globals nodes_setNode load_setNode
      setNode_globals)

lemma step_CharacterChange_node:
  "nodes (step h (CharacterChange n v) w) n
     = updateImage h (resolveIcon (characterDataMap w) v) ((nodes w n)\<lparr>characterValue := v\<rparr>)"
  by (simp add: characterWidget_callback_def nodes_setNode setNode_globals)

lemma img_src_updateImage:
  "img_src (updateImage h u nd) = (if trim u = [] then [] else buildPreviewSrc h u)"
proof (cases "trim u = []")
  case True
  then show ?thesis by (simp add: updateImage_def buildPreviewSrc_def)
next
  case False
  then show ?thesis by (simp add: updateImage_request)
qed

lemma trim_RAIDEN_CN: "trim RAIDEN_CN = RAIDEN_CN"
  by (simp add: RAIDEN_CN_def trim_def isWhiteSpace_def)

lemma trim_raiden_icon:
  "trim (js ''https://example.com/raiden.png'') = js ''https://example.com/raiden.png''"
  by (simp add: js_def trim_def isWhiteSpace_def)

lemma genshin_index:
  assumes "fileCache w (js ''genshin.json'') = None"
  shows "characterDataMap (loadCharacterDataForFile sampleHost (Some (js ''genshin.json'')) w) RAIDEN_CN
           = Some raidenPayload"
    and "characterDisplayList (loadCharacterDataForFile sampleHost (Some (js ''genshin.json'')) w)
           = [RAIDEN_CN @ js '' (Raiden Shogun)'', HUTAO_CN]"
    and "fileCache (loadCharacterDataForFile sampleHost (Some (js ''genshin.json'')) w)
           (js ''missing.json'') = fileCache w (js ''missing.json'')"
proof -
  let ?v = "Some (js ''genshin.json'')"
  have name: "normalizeJsonFile ?v \<noteq> []"
    by (simp add: normalize_genshin js_genshin_nonempty)
  have miss: "fileCache w (normalizeJsonFile ?v) = None"
    using assms by (simp add: normalize_genshin)
  have ok: "tryLoad (dataFiles sampleHost (dataUrl sampleHost (normalizeJsonFile ?v))) =
     Inr ([RAIDEN_CN @ js '' (Raiden Shogun)'' \<mapsto> raidenPayload,
           RAIDEN_CN \<mapsto> raidenPayload,
           js ''Raiden Shogun'' \<mapsto> raidenPayload,
           HUTAO_CN \<mapsto> hutaoPayload],
          [RAIDEN_CN @ js '' (Raiden Shogun)'', HUTAO_CN])"
    by (simp only: normalize_genshin sampleHost_genshin tryLoad_genshin)
  have ne: "RAIDEN_CN \<noteq> js ''Raiden Shogun''" "RAIDEN_CN \<noteq> HUTAO_CN"
    by (simp_all add: RAIDEN_CN_def HUTAO_CN_def js_def)
  have names: "js ''missing.json'' \<noteq> js ''genshin.json''"
    by (simp add: js_def)
  note w1 = load_miss_ok [OF name miss ok]
  show "characterDataMap (loadCharacterDataForFile sampleHost ?v w) RAIDEN_CN = Some raidenPayload"
    using ne by (simp add: w1)
  show "characterDisplayList (loadCharacterDataForFile sampleHost ?v w)
           = [RAIDEN_CN @ js '' (Raiden Shogun)'', HUTAO_CN]"
    by (simp add: w1)
  show "fileCache (loadCharacterDataForFile sampleHost ?v w) (js ''missing.json'')
          = fileCache w (js ''missing.json'')"
    using names by (simp add: w1 normalize_genshin)
qed

lemma missing_index:
  assumes "fileCache w (js ''missing.json'') = None"
  shows "characterDataMap (loadCharacterDataForFile sampleHost (Some (js ''missing.json'')) w)
           = Map.empty"
    and "characterDisplayList (loadCharacterDataForFile sampleHost (Some (js ''missing.json'')) w)
           = [NO_DATA]"
proof -
  let ?x = "Some (js ''missing.json'')"
  have name: "normalizeJsonFile ?x \<noteq> []"
    by (simp add: normalize_missing) (simp add: js_def)
  have miss: "fileCache w (normalizeJsonFile ?x) = None"
    using assms by (simp add: normalize_missing)
  have bad: "tryLoad (dataFiles sampleHost (dataUrl sampleHost (normalizeJsonFile ?x))) = Inl HttpError"
    by (simp add: normalize_missing dataUrl_sample sampleHost_files tryLoad_failures)
  note w1 = load_miss_failed [OF name miss bad]
  show "characterDataMap (loadCharacterDataForFile sampleHost ?x w) = Map.empty"
    and "characterDisplayList (loadCharacterDataForFile sampleHost ?x w) = [NO_DATA]"
    by (simp_all add: w1)
qed

text \<open>
  Node 0 loads \<open>genshin.json\<close>, and the name of Raiden Shogun resolves to her record and
  her icon. Then node 1 changes its dataset to a file that fails to load: the index that
  node 0 resolves through is now empty, its display list is the sentinel, and the same
  selection on node 0 finds no icon.
\<close>

theorem dataset_change_reaches_other_node:
  "characterDataMap (run [(sampleHost, JsonChange 0 (Some (js ''genshin.json'')))]
       (initialWorld (\<lambda>n. newNode))) RAIDEN_CN = Some raidenPayload
   \<and> characterDataMap (run [(sampleHost, JsonChange 0 (Some (js ''genshin.json''))),
                             (sampleHost, JsonChange 1 (Some (js ''missing.json'')))]
       (initialWorld (\<lambda>n. newNode))) RAIDEN_CN = None
   \<and> characterDisplayList (run [(sampleHost, JsonChange 0 (Some (js ''genshin.json'')))]
       (initialWorld (\<lambda>n. newNode))) = [RAIDEN_CN @ js '' (Raiden Shogun)'', HUTAO_CN]
   \<and> characterDisplayList (run [(sampleHost, JsonChange 0 (Some (js ''genshin.json''))),
                                 (sampleHost, JsonChange 1 (Some (js ''missing.json'')))]
       (initialWorld (\<lambda>n. newNode))) = [NO_DATA]
   \<and> img_src (nodes (run [(sampleHost, JsonChange 0 (Some (js ''genshin.json''))),
                           (sampleHost, CharacterChange 0 (Some RAIDEN_CN))]
       (initialWorld (\<lambda>n. newNode))) 0)
       = buildPreviewSrc sampleHost (js ''https://example.com/raiden.png'')
   \<and> buildPreviewSrc sampleHost (js ''https://example.com/raiden.png'') \<noteq> []
   \<and> img_src (nodes (run [(sampleHost, JsonChange 0 (Some (js ''genshin.json''))),
                           (sampleHost, JsonChange 1 (Some (js ''missing.json''))),
                           (sampleHost, CharacterChange 0 (Some RAIDEN_CN))]
       (initialWorld (\<lambda>n. newNode))) 0) = []"
proof -
  let ?w0 = "initialWorld (\<lambda>n. newNode)"
  let ?g = "Some (js ''genshin.json'')"
  let ?x = "Some (js ''missing.json'')"
  let ?w1 = "step sampleHost (JsonChange 0 ?g) ?w0"
  let ?w2 = "step sampleHost (JsonChange 1 ?x) ?w1"
  have c0: "\<And>f. fileCache ?w0 f = None"
    by (simp add: initialWorld_simps)
  have m1: "characterDataMap ?w1 RAIDEN_CN = Some raidenPayload"
    and l1: "characterDisplayList ?w1 = [RAIDEN_CN @ js '' (Raiden Shogun)'', HUTAO_CN]"
    and c1: "fileCache ?w1 (js ''missing.json'') = None"
    by (simp_all only: step_JsonChange_globals genshin_index [OF c0] c0)
  have m2: "characterDataMap ?w2 = Map.empty"
    and l2: "characterDisplayList ?w2 = [NO_DATA]"
    by (simp_all only: step_JsonChange_globals missing_index [OF c1])
  have icon: "trim (js ''https://example.com/raiden.png'') \<noteq> []"
    by (simp add: trim_raiden_icon) (simp add: js_def)
  have r1: "resolveIcon (characterDataMap ?w1) (Some RAIDEN_CN) = js ''https://example.com/raiden.png''"
    by (simp add: resolveIcon_def String_or_empty_def trim_RAIDEN_CN m1 raidenPayload_def
        del: step.simps)
  have r2: "resolveIcon (characterDataMap ?w2) (Some RAIDEN_CN) = []"
    by (simp only: resolveIcon_def m2 option.simps)
  have i1: "img_src (nodes (step sampleHost (CharacterChange 0 (Some RAIDEN_CN)) ?w1) 0)
       = buildPreviewSrc sampleHost (js ''https://example.com/raiden.png'')"
    using icon by (simp only: step_CharacterChange_node img_src_updateImage r1 if_False)
  have i2: "img_src (nodes (step sampleHost (CharacterChange 0 (Some RAIDEN_CN)) ?w2) 0) = []"
    by (simp only: step_CharacterChange_node img_src_updateImage r2 trim_Nil) simp
  have p: "buildPreviewSrc sampleHost (js ''https://example.com/raiden.png'') \<noteq> []"
    by (rule proxy_nonempty [OF icon])
  from m1 m2 l1 l2 i1 i2 p show ?thesis
    by (simp only: run.simps) simp
qed

lemma genshinNode_fields:
  "jsonValue genshinNode = Some (js ''genshin.json'')"
  "characterValue genshinNode = Some HUTAO_CN"
  by (simp_all add: genshinNode_def)

theorem module_state_is_shared_witness:
  "(1::nat) \<noteq> 0
   \<and> nodes (jsonWidget_callback sampleHost 0 (initialWorld (\<lambda>n. genshinNode))) 1 = genshinNode
   \<and> characterDataMap (jsonWidget_callback sampleHost 0 (initialWorld (\<lambda>n. genshinNode))) RAIDEN_CN
       = Some raidenPayload
   \<and> img_src (nodes (characterWidget_callback sampleHost 1 (Some RAIDEN_CN)
                (jsonWidget_callback sampleHost 0 (initialWorld (\<lambda>n. genshinNode)))) 1)
       = buildPreviewSrc sampleHost (js ''https://example.com/raiden.png'')"
proof -
  let ?w0 = "initialWorld (\<lambda>n. genshinNode)"
  have d: "(1::nat) \<noteq> 0" by simp
  have c0: "fileCache ?w0 (js ''genshin.json'') = None"
    by (simp add: initialWorld_simps)
  have jv: "jsonValue (nodes ?w0 0) = Some (js ''genshin.json'')"
    by (simp add: initialWorld_simps genshinNode_fields)
  have icon: "trim (js ''https://example.com/raiden.png'') \<noteq> []"
    by (simp add: trim_raiden_icon) (simp add: js_def)
  have r: "resolveIcon
       (characterDataMap (loadCharacterDataForFile sampleHost (Some (js ''genshin.json'')) ?w0))
       (Some RAIDEN_CN) = js ''https://example.com/raiden.png''"
    by (simp add: resolveIcon_def String_or_empty_def trim_RAIDEN_CN genshin_index(1) [OF c0]
        raidenPayload_def)
  from module_state_is_shared [OF d, of sampleHost ?w0 "Some RAIDEN_CN"]
  show ?thesis
    using icon
    by (simp add: genshinNode_fields r genshin_index(1) [OF c0] img_src_updateImage
        initialWorld_simps)
qed

section \<open>A change of the dataset control\<close>



















end
